theory Spec2Isabelle
  imports Main "HOL-Library.Word" "HOL-Library.Monad_Syntax"
begin

unbundle bit_operations_syntax

section \<open>C strings, pointers and the allocator\<close>

text \<open>
  A C string is its text (the terminating NUL is implicit). A pointer is an address or
  NULL (\<open>None\<close>). The heap is the list of all cells ever allocated, indexed by address: a fresh address is
  the length of the list, a freed cell becomes \<open>None\<close>. So a freed address is never
  handed out again and a dangling pointer stays dangling.
\<close>

type_synonym addr = nat
type_synonym ptr = "addr option"

definition strchr :: "string \<Rightarrow> char \<Rightarrow> nat option" where
  \<comment> \<open>offset of the first occurrence of the character, \<open>None\<close> for a NULL result\<close>
  "strchr s c = (if c \<in> set s then Some (length (takeWhile (\<lambda>x. x \<noteq> c) s)) else None)"

definition strndup_text :: "string \<Rightarrow> nat \<Rightarrow> string" where
  \<comment> \<open>the text \<open>strndup(s, n)\<close> copies: at most \<open>n\<close> characters of \<open>s\<close>\<close>
  "strndup_text s n = take n s"

section \<open>The name service and the process environment\<close>

text \<open>
  What the operating environment answers is not decided by the program, so it is a
  parameter. \<open>getaddrinfo E k name\<close> is the answer to the \<open>k\<close>-th query of the process
  (return code, and the canonical name when the code is 0): the name service may answer
  the same name differently at different times. \<open>malloc_fails E k\<close> says whether the
  \<open>k\<close>-th allocation request of the process fails. \<open>sys_hostname E\<close> is what
  \<open>sudo_gethostname()\<close> reads from the system (\<open>None\<close> when the system call fails).
\<close>

record env =
  getaddrinfo :: "nat \<Rightarrow> string \<Rightarrow> int \<times> string"
  malloc_fails :: "nat \<Rightarrow> bool"
  sys_hostname :: "string option"

definition EAI_MEMORY :: int where
  \<comment> \<open>\<open><netdb.h>\<close>; any non-zero code would do\<close>
  "EAI_MEMORY = - 10"

section \<open>Host fields of the identity contexts\<close>

datatype diag =
    Gai_log_warning int string    \<comment> \<open>\<open>gai_log_warning(flags, rc, "unable to resolve host %s", host)\<close>\<close>
  | Sudo_warnx string             \<comment> \<open>\<open>sudo_warnx("%s: %s", __func__, msg)\<close>\<close>

text \<open>
  \<open>user_ctx.host\<close>, \<open>user_ctx.shost\<close>, \<open>runas_ctx.host\<close> and \<open>runas_ctx.shost\<close> with the
  heap they point into, the counters of the two external services and the diagnostics
  written so far.
\<close>

record hstate =
  user_ctx_host :: ptr
  user_ctx_shost :: ptr
  runas_ctx_host :: ptr
  runas_ctx_shost :: ptr
  cells :: "string option list"
  mallocs :: nat
  gai_calls :: nat
  warnings :: "diag list"

definition load :: "hstate \<Rightarrow> ptr \<Rightarrow> string option" where
  \<comment> \<open>reading the string behind a pointer; \<open>None\<close> when the pointer is NULL or dangling\<close>
  "load s p =
     (case p of None \<Rightarrow> None | Some a \<Rightarrow> if a < length (cells s) then cells s ! a else None)"

definition strdup :: "env \<Rightarrow> string \<Rightarrow> hstate \<Rightarrow> ptr \<times> hstate" where
  \<comment> \<open>\<open>strdup\<close>/\<open>strndup\<close> of a text: NULL when the allocation fails, else a fresh address\<close>
  "strdup E txt s =
     (if malloc_fails E (mallocs s) then (None, s\<lparr>mallocs := Suc (mallocs s)\<rparr>)
      else (Some (length (cells s)),
            s\<lparr>cells := cells s @ [Some txt], mallocs := Suc (mallocs s)\<rparr>))"

definition free :: "ptr \<Rightarrow> hstate \<Rightarrow> hstate option" where
  \<comment> \<open>\<open>free(NULL)\<close> does nothing; freeing what is not live is undefined (\<open>None\<close>)\<close>
  "free p s =
     (case p of
        None \<Rightarrow> Some s
      | Some a \<Rightarrow>
          if load s (Some a) \<noteq> None then Some (s\<lparr>cells := (cells s)[a := None]\<rparr>) else None)"

subsection \<open>resolve_host\<close>

text \<open>
  Returns the code and the two out-parameters \<open>*longp\<close>, \<open>*shortp\<close> (unchanged unless the
  code is 0). The \<open>addrinfo\<close> list itself is not part of the modelled heap.
\<close>

definition resolve_host ::
  "env \<Rightarrow> ptr \<Rightarrow> ptr \<times> ptr \<Rightarrow> hstate \<Rightarrow> (int \<times> (ptr \<times> ptr) \<times> hstate) option" where
  "resolve_host E hostp outs s =
     (case load s hostp of
        None \<Rightarrow> None
      | Some name \<Rightarrow>
          (let (ret, canon) = getaddrinfo E (gai_calls s) name;
               s1 = s\<lparr>gai_calls := Suc (gai_calls s)\<rparr>
           in if ret \<noteq> 0 then Some (ret, outs, s1)
              else
                (case strdup E canon s1 of
                   (None, s2) \<Rightarrow> Some (EAI_MEMORY, outs, s2)
                 | (Some lname, s2) \<Rightarrow>
                     (case strchr canon (CHR ''.'') of
                        Some cp \<Rightarrow>
                          (case strdup E (strndup_text canon cp) s2 of
                             (None, s3) \<Rightarrow>
                               (case free (Some lname) s3 of
                                  None \<Rightarrow> None
                                | Some s4 \<Rightarrow> Some (EAI_MEMORY, outs, s4))
                           | (Some sname, s3) \<Rightarrow> Some (0, (Some lname, Some sname), s3))
                      | None \<Rightarrow> Some (0, (Some lname, Some lname), s2)))))"

subsection \<open>Directive values\<close>

text \<open>
  \<open>union sudo_defs_val\<close> is read through the member that fits the directive; the record
  gives every member that the handlers read as a field of its own. The enumerated tuple
  values come from def_data.h, which is not under src: they are the constructors of
  \<open>def_tuple\<close>.
\<close>

datatype def_tuple = never | once | always | global | ppid | tty | kernel | sudo | json | dso | trace

record sudo_defs_val =
  flag :: bool
  ival :: int
  str :: "string option"
  mode :: nat
  tuple :: def_tuple

subsection \<open>cb_fqdn\<close>

text \<open>
  The function in its four steps. \<open>lhost\<close> and \<open>shost\<close> are not initialised in C before the
  first \<open>resolve_host\<close>; they start as NULL here and are read only after a success.
\<close>

definition install_user_hosts :: "ptr \<Rightarrow> ptr \<Rightarrow> hstate \<Rightarrow> hstate option" where
  \<comment> \<open>lines 124-128: release the old pair by the aliasing rule, store the new one\<close>
  "install_user_hosts lhost shost s =
     do {
       s1 \<leftarrow> (if user_ctx_shost s \<noteq> user_ctx_host s then free (user_ctx_shost s) s else Some s);
       s2 \<leftarrow> free (user_ctx_host s1) s1;
       Some (s2\<lparr>user_ctx_host := lhost, user_ctx_shost := shost\<rparr>)
     }"

definition install_runas_hosts :: "ptr \<Rightarrow> ptr \<Rightarrow> hstate \<Rightarrow> hstate option" where
  \<comment> \<open>lines 154-160\<close>
  "install_runas_hosts lhost shost s =
     (if lhost \<noteq> None \<and> shost \<noteq> None then
        do {
          s1 \<leftarrow> (if runas_ctx_shost s \<noteq> runas_ctx_host s then free (runas_ctx_shost s) s
                else Some s);
          s2 \<leftarrow> free (runas_ctx_host s1) s1;
          Some (s2\<lparr>runas_ctx_host := lhost, runas_ctx_shost := shost\<rparr>)
        }
      else Some s)"

definition dup_user_hosts :: "env \<Rightarrow> hstate \<Rightarrow> (ptr \<times> ptr \<times> hstate) option" where
  \<comment> \<open>lines 140-145: \<open>lhost = strdup(user_ctx.host)\<close>, then \<open>shost\<close> by the aliasing rule\<close>
  "dup_user_hosts E s =
     do {
       htxt \<leftarrow> load s (user_ctx_host s);
       (case strdup E htxt s of
          (None, s1) \<Rightarrow> Some (None, None, s1)
        | (Some l, s1) \<Rightarrow>
            if user_ctx_shost s1 \<noteq> user_ctx_host s1 then
              do {
                stxt \<leftarrow> load s1 (user_ctx_shost s1);
                (case strdup E stxt s1 of (sh, s2) \<Rightarrow> Some (Some l, sh, s2))
              }
            else Some (Some l, Some l, s1))
     }"

definition resolve_runas :: "env \<Rightarrow> bool \<Rightarrow> hstate \<Rightarrow> (bool \<times> ptr \<times> ptr \<times> hstate) option" where
  \<comment> \<open>lines 131-153; the first component is False when the function returns false here\<close>
  "resolve_runas E remote s =
     (if remote then
        do {
          (rc, (lhost, shost), s1) \<leftarrow> resolve_host E (runas_ctx_host s) (None, None) s;
          if rc \<noteq> 0 then
            do {
              rname \<leftarrow> load s1 (runas_ctx_host s1);
              Some (False, lhost, shost, s1\<lparr>warnings := warnings s1 @ [Gai_log_warning rc rname]\<rparr>)
            }
          else Some (True, lhost, shost, s1)
        }
      else
        do {
          (lhost, shost, s1) \<leftarrow> dup_user_hosts E s;
          if lhost = None \<or> shost = None then
            do {
              s2 \<leftarrow> free lhost s1;
              s3 \<leftarrow> (if lhost \<noteq> shost then free shost s2 else Some s2);
              Some (False, lhost, shost,
                    s3\<lparr>warnings := warnings s3 @ [Sudo_warnx ''unable to allocate memory'']\<rparr>)
            }
          else Some (True, lhost, shost, s1)
        })"

definition resolve_user :: "env \<Rightarrow> hstate \<Rightarrow> (bool \<times> ptr \<times> ptr \<times> hstate) option" where
  \<comment> \<open>lines 117-123: resolve \<open>user_ctx.host\<close>, on failure try \<open>runas_ctx.host\<close> once\<close>
  "resolve_user E s =
     do {
       (rc1, (lhost, shost), s1) \<leftarrow> resolve_host E (user_ctx_host s) (None, None) s;
       if rc1 \<noteq> 0 then
         do {
           (rc, (lhost2, shost2), s2) \<leftarrow> resolve_host E (runas_ctx_host s1) (lhost, shost) s1;
           if rc \<noteq> 0 then
             do {
               uname \<leftarrow> load s2 (user_ctx_host s2);
               Some (False, lhost2, shost2,
                     s2\<lparr>warnings := warnings s2 @ [Gai_log_warning rc uname]\<rparr>)
             }
           else Some (True, lhost2, shost2, s2)
         }
       else Some (True, lhost, shost, s1)
     }"

definition cb_fqdn :: "env \<Rightarrow> sudo_defs_val option \<Rightarrow> int \<Rightarrow> hstate \<Rightarrow> (bool \<times> hstate) option" where
  "cb_fqdn E sd_un op s =
     (if (case sd_un of None \<Rightarrow> False | Some v \<Rightarrow> \<not> flag v) then Some (True, s)
      else
        do {
          rname \<leftarrow> load s (runas_ctx_host s);
          uname \<leftarrow> load s (user_ctx_host s);
          (ok1, lhost, shost, s1) \<leftarrow> resolve_user E s;
          if \<not> ok1 then Some (False, s1)
          else
            do {
              s2 \<leftarrow> install_user_hosts lhost shost s1;
              (ok2, lhost2, shost2, s3) \<leftarrow> resolve_runas E (rname \<noteq> uname) s2;
              if \<not> ok2 then Some (False, s3)
              else
                do {
                  s4 \<leftarrow> install_runas_hosts lhost2 shost2 s3;
                  Some (True, s4)
                }
            }
        })"

subsection \<open>get_hostname (stubs.c)\<close>

definition sudo_gethostname :: "env \<Rightarrow> hstate \<Rightarrow> ptr \<times> hstate" where
  \<comment> \<open>not under src: a freshly allocated copy of the system's host name, or NULL\<close>
  "sudo_gethostname E s =
     (case sys_hostname E of None \<Rightarrow> (None, s) | Some h \<Rightarrow> strdup E h s)"

definition store :: "addr \<Rightarrow> string \<Rightarrow> hstate \<Rightarrow> hstate" where
  \<comment> \<open>overwriting the text of a cell in place\<close>
  "store a txt s = s\<lparr>cells := (cells s)[a := Some txt]\<rparr>"

text \<open>
  \<open>sudo_fatalx\<close> ends the process: the result is \<open>Inl\<close> of its message. The outer
  \<open>option\<close> is \<open>None\<close> for undefined behaviour, as everywhere in this section.
\<close>

definition get_hostname :: "env \<Rightarrow> hstate \<Rightarrow> (string + hstate) option" where
  "get_hostname E s =
     (case sudo_gethostname E s of
        (Some h, s1) \<Rightarrow>
          do {
            let s2 = s1\<lparr>user_ctx_host := Some h\<rparr>;
            txt \<leftarrow> load s2 (Some h);
            (case strchr txt (CHR ''.'') of
               Some cp \<Rightarrow>
                 do {
                   let s3 = store h (take cp txt) s2;
                   cut \<leftarrow> load s3 (Some h);
                   (case strdup E cut s3 of
                      (None, s4) \<Rightarrow> Some (Inl ''unable to allocate memory'')
                    | (Some sh, s4) \<Rightarrow>
                        Some (Inr (store h txt (s4\<lparr>user_ctx_shost := Some sh\<rparr>))))
                 }
             | None \<Rightarrow> Some (Inr (s2\<lparr>user_ctx_shost := Some h\<rparr>)))
          }
          \<bind> (\<lambda>r. case r of
                  Inl msg \<Rightarrow> Some (Inl msg)
                | Inr s5 \<Rightarrow>
                    Some (Inr (s5\<lparr>runas_ctx_host := user_ctx_host s5,
                                  runas_ctx_shost := user_ctx_shost s5\<rparr>)))
      | (None, s1) \<Rightarrow>
          (case strdup E ''localhost'' s1 of
             (None, s2) \<Rightarrow> Some (Inl ''unable to allocate memory'')
           | (Some l, s2) \<Rightarrow>
               Some (Inr (s2\<lparr>user_ctx_host := Some l, user_ctx_shost := Some l,
                             runas_ctx_host := Some l, runas_ctx_shost := Some l\<rparr>))))"

subsection \<open>Sharing between the two contexts\<close>

definition same_storage :: "ptr \<Rightarrow> ptr \<Rightarrow> bool" where
  "same_storage p q = (p \<noteq> None \<and> p = q)"

definition shares_storage :: "hstate \<Rightarrow> bool" where
  \<comment> \<open>some host string of \<open>runas_ctx\<close> is the same storage as one of \<open>user_ctx\<close>\<close>
  "shares_storage s =
     (same_storage (runas_ctx_host s) (user_ctx_host s) \<or>
      same_storage (runas_ctx_host s) (user_ctx_shost s) \<or>
      same_storage (runas_ctx_shost s) (user_ctx_host s) \<or>
      same_storage (runas_ctx_shost s) (user_ctx_shost s))"

definition live :: "hstate \<Rightarrow> ptr \<Rightarrow> bool" where
  "live s p = (load s p \<noteq> None)"

definition hosts_ok :: "hstate \<Rightarrow> bool" where
  \<comment> \<open>the four host pointers are live strings, and the contexts own theirs exclusively\<close>
  "hosts_ok s =
     (live s (user_ctx_host s) \<and> live s (user_ctx_shost s) \<and>
      live s (runas_ctx_host s) \<and> live s (runas_ctx_shost s) \<and> \<not> shares_storage s)"

subsection \<open>Notions for the proofs\<close>

definition frame :: "hstate \<Rightarrow> hstate \<Rightarrow> bool" where
  \<comment> \<open>from \<open>s\<close> to \<open>s'\<close> the host pointers and every cell that existed stay as they were\<close>
  "frame s s' =
     (user_ctx_host s' = user_ctx_host s \<and> user_ctx_shost s' = user_ctx_shost s \<and>
      runas_ctx_host s' = runas_ctx_host s \<and> runas_ctx_shost s' = runas_ctx_shost s \<and>
      take (length (cells s)) (cells s') = cells s)"

definition fresh :: "hstate \<Rightarrow> hstate \<Rightarrow> ptr \<Rightarrow> bool" where
  \<comment> \<open>\<open>p\<close> was allocated after \<open>s\<close> and is live in \<open>s'\<close>: an independent allocation\<close>
  "fresh s s' p = (case p of None \<Rightarrow> False | Some a \<Rightarrow> length (cells s) \<le> a \<and> live s' p)"

definition fqdn_enabled :: "sudo_defs_val option \<Rightarrow> bool" where
  \<comment> \<open>the negation of the test of line 110\<close>
  "fqdn_enabled sd_un = (case sd_un of None \<Rightarrow> True | Some v \<Rightarrow> flag v)"

subsection \<open>Example environments and states\<close>

definition env_steady :: env where
  "env_steady =
     \<lparr>getaddrinfo = (\<lambda>k n. if n = ''target'' then (0, ''target.example.com'')
                            else if n = ''www'' then (0, ''www.example.com'') else (- 2, [])),
      malloc_fails = (\<lambda>k. False), sys_hostname = Some ''build.example.com''\<rparr>"

definition env_flaky :: env where
  "env_flaky =
     \<lparr>getaddrinfo = (\<lambda>k n. if k = 1 \<and> n = ''target'' then (0, ''target.example.com'')
                            else (- 3, [])),
      malloc_fails = (\<lambda>k. False), sys_hostname = None\<rparr>"

definition hosts_remote :: hstate where
  "hosts_remote =
     \<lparr>user_ctx_host = Some 0, user_ctx_shost = Some 0, runas_ctx_host = Some 1,
      runas_ctx_shost = Some 1, cells = [Some ''ghost'', Some ''target''], mallocs = 0,
      gai_calls = 0, warnings = []\<rparr>"

definition env_oom :: env where
  "env_oom =
     \<lparr>getaddrinfo = (\<lambda>k n. if n = ''www'' then (0, ''www.example.com'') else (- 2, [])),
      malloc_fails = (\<lambda>k. 2 \<le> k), sys_hostname = None\<rparr>"

definition hosts_same :: hstate where
  "hosts_same =
     \<lparr>user_ctx_host = Some 0, user_ctx_shost = Some 0, runas_ctx_host = Some 1,
      runas_ctx_shost = Some 1, cells = [Some ''www'', Some ''www''], mallocs = 0,
      gai_calls = 0, warnings = []\<rparr>"

definition hosts_lost :: hstate where
  "hosts_lost =
     \<lparr>user_ctx_host = Some 0, user_ctx_shost = Some 0, runas_ctx_host = Some 1,
      runas_ctx_shost = Some 2, cells = [Some ''ghost'', Some ''phantom.lan'', Some ''phantom''],
      mallocs = 0, gai_calls = 0, warnings = []\<rparr>"

definition hosts_blank :: hstate where
  "hosts_blank =
     \<lparr>user_ctx_host = None, user_ctx_shost = None, runas_ctx_host = None,
      runas_ctx_shost = None, cells = [], mallocs = 0, gai_calls = 0, warnings = []\<rparr>"

definition hosts_twin :: hstate where
  "hosts_twin =
     \<lparr>user_ctx_host = Some 0, user_ctx_shost = Some 0, runas_ctx_host = Some 1,
      runas_ctx_shost = Some 1, cells = [Some ''target'', Some ''target''], mallocs = 0,
      gai_calls = 0, warnings = []\<rparr>"

definition env_plain :: env where
  "env_plain =
     \<lparr>getaddrinfo = (\<lambda>k n. if n = ''target'' then (0, ''target'') else (- 2, [])),
      malloc_fails = (\<lambda>k. False), sys_hostname = Some ''build''\<rparr>"

section \<open>The state the other handlers work on\<close>

text \<open>
  The \<open>def_*\<close> variables are macros of def_data.h (not under src) for the current values
  of the directives: they are fields of the state. The constants of the event log and of
  the system headers have the values of their headers.
\<close>

datatype evlog_format = EVLOG_SUDO | EVLOG_JSON

definition EVLOG_NONE :: int where "EVLOG_NONE = 0"
definition EVLOG_SYSLOG :: int where "EVLOG_SYSLOG = 1"
definition EVLOG_FILE :: int where "EVLOG_FILE = 2"

definition SET :: "int \<Rightarrow> int \<Rightarrow> int" where
  \<comment> \<open>the macro \<open>SET(t, f)\<close>: \<open>t |= f\<close>\<close>
  "SET t f = t OR f"

definition ISSET :: "int \<Rightarrow> int \<Rightarrow> bool" where
  \<comment> \<open>the macro \<open>ISSET(t, f)\<close>: \<open>t & f\<close> as a truth value\<close>
  "ISSET t f = (t AND f \<noteq> 0)"




record eventlog_config =
  evl_type :: int
  evl_format :: evlog_format
  syslog_acceptpri :: int
  syslog_rejectpri :: int
  syslog_alertpri :: int
  syslog_maxlen :: nat
  file_maxlen :: nat
  omit_hostname :: bool
  logpath :: "string option"
  time_fmt :: string
  mailerpath :: "string option"
  mailerflags :: "string option"
  mailfrom :: "string option"
  mailto :: "string option"
  mailsub :: "string option"

record passwd =
  pw_name :: string
  pw_uid :: nat
  pw_gid :: nat

datatype pw_query = Getpwuid nat | Getpwnam string

datatype log_entry =
  Unknown_user string int int string
    \<comment> \<open>\<open>log_warningx(SLOG_AUDIT|SLOG_PARSE_ERROR, "%s:%d:%d timestampowner: unknown user %s", ...)\<close>\<close>

record sudoers =
  hosts :: hstate
  evl :: eventlog_config
  def_syslog :: int
  def_logfile :: "string option"
  def_timestamp_type :: def_tuple
  def_intercept_allow_setid :: bool
  def_log_stdin :: int
  def_log_ttyin :: int
  def_log_stdout :: int
  def_log_stderr :: int
  def_log_ttyout :: int
  override_umask :: bool
  user_ctx_flags :: int
  user_ctx_cmnd :: "string option"
  cmnd_status :: int
  timestamp_uid :: nat
  timestamp_gid :: nat
  pw_queries :: "pw_query list"
  audit_log :: "log_entry list"

subsection \<open>The event-log collaborator\<close>

text \<open>
  Modelled from the spec: the setters of the event-log configurator (spec section 6,
  lib/eventlog is not under src). Each stores its argument in the setting it names and
  touches nothing else.
\<close>

definition eventlog_set_type :: "int \<Rightarrow> eventlog_config \<Rightarrow> eventlog_config" where
  "eventlog_set_type t c = c\<lparr>evl_type := t\<rparr>"

definition eventlog_set_logpath :: "string option \<Rightarrow> eventlog_config \<Rightarrow> eventlog_config" where
  "eventlog_set_logpath p c = c\<lparr>logpath := p\<rparr>"

definition eventlog_set_format :: "evlog_format \<Rightarrow> eventlog_config \<Rightarrow> eventlog_config" where
  "eventlog_set_format f c = c\<lparr>evl_format := f\<rparr>"

definition eventlog_set_syslog_acceptpri :: "int \<Rightarrow> eventlog_config \<Rightarrow> eventlog_config" where
  "eventlog_set_syslog_acceptpri p c = c\<lparr>syslog_acceptpri := p\<rparr>"

definition eventlog_set_syslog_rejectpri :: "int \<Rightarrow> eventlog_config \<Rightarrow> eventlog_config" where
  "eventlog_set_syslog_rejectpri p c = c\<lparr>syslog_rejectpri := p\<rparr>"

definition eventlog_set_syslog_alertpri :: "int \<Rightarrow> eventlog_config \<Rightarrow> eventlog_config" where
  "eventlog_set_syslog_alertpri p c = c\<lparr>syslog_alertpri := p\<rparr>"

definition eventlog_set_syslog_maxlen :: "nat \<Rightarrow> eventlog_config \<Rightarrow> eventlog_config" where
  "eventlog_set_syslog_maxlen n c = c\<lparr>syslog_maxlen := n\<rparr>"

definition eventlog_set_file_maxlen :: "nat \<Rightarrow> eventlog_config \<Rightarrow> eventlog_config" where
  "eventlog_set_file_maxlen n c = c\<lparr>file_maxlen := n\<rparr>"

definition eventlog_set_time_fmt :: "string \<Rightarrow> eventlog_config \<Rightarrow> eventlog_config" where
  "eventlog_set_time_fmt f c = c\<lparr>time_fmt := f\<rparr>"

definition eventlog_set_omit_hostname :: "bool \<Rightarrow> eventlog_config \<Rightarrow> eventlog_config" where
  "eventlog_set_omit_hostname b c = c\<lparr>omit_hostname := b\<rparr>"

definition eventlog_set_mailerpath :: "string option \<Rightarrow> eventlog_config \<Rightarrow> eventlog_config" where
  "eventlog_set_mailerpath p c = c\<lparr>mailerpath := p\<rparr>"

definition eventlog_set_mailerflags :: "string option \<Rightarrow> eventlog_config \<Rightarrow> eventlog_config" where
  "eventlog_set_mailerflags p c = c\<lparr>mailerflags := p\<rparr>"

definition eventlog_set_mailfrom :: "string option \<Rightarrow> eventlog_config \<Rightarrow> eventlog_config" where
  "eventlog_set_mailfrom p c = c\<lparr>mailfrom := p\<rparr>"

definition eventlog_set_mailto :: "string option \<Rightarrow> eventlog_config \<Rightarrow> eventlog_config" where
  "eventlog_set_mailto p c = c\<lparr>mailto := p\<rparr>"

definition eventlog_set_mailsub :: "string option \<Rightarrow> eventlog_config \<Rightarrow> eventlog_config" where
  "eventlog_set_mailsub p c = c\<lparr>mailsub := p\<rparr>"

subsection \<open>The user database and the timestamp owner\<close>

text \<open>
  Modelled from the spec: the user database (spec section 6: lookup by name and by numeric
  id, each giving a record or nothing; pwutil.c is not under src) is a list of records
  searched from the front. \<open>sudo_strtoid\<close> (lib/util, not under src) is a parameter:
  \<open>None\<close> stands for a parse that sets \<open>errstr\<close>.
\<close>

record userdb =
  pwdb :: "passwd list"
  sudo_strtoid :: "string \<Rightarrow> nat option"

definition sudo_getpwuid :: "userdb \<Rightarrow> nat \<Rightarrow> passwd option" where
  "sudo_getpwuid U u = find (\<lambda>p. pw_uid p = u) (pwdb U)"

definition sudo_getpwnam :: "userdb \<Rightarrow> string \<Rightarrow> passwd option" where
  "sudo_getpwnam U n = find (\<lambda>p. pw_name p = n) (pwdb U)"

definition timestamp_set_owner :: "nat \<Rightarrow> nat \<Rightarrow> sudoers \<Rightarrow> sudoers" where
  \<comment> \<open>timestamp.c, not under src: records the owner of the timestamp files\<close>
  "timestamp_set_owner u g s = s\<lparr>timestamp_uid := u, timestamp_gid := g\<rparr>"

text \<open>
  \<open>cb_timestampowner\<close>. The result is \<open>None\<close> when \<open>sd_un->str\<close> is NULL (the code reads
  \<open>*user\<close>). Every lookup in the user database is appended to \<open>pw_queries\<close>.
\<close>

definition numeric_lookup :: "userdb \<Rightarrow> string \<Rightarrow> sudoers \<Rightarrow> passwd option \<times> sudoers" where
  \<comment> \<open>lines 176-181\<close>
  "numeric_lookup U user s =
     (case user of
        c # rest \<Rightarrow>
          if c = CHR ''#'' then
            (case sudo_strtoid U rest of
               Some uid \<Rightarrow> (sudo_getpwuid U uid, s\<lparr>pw_queries := pw_queries s @ [Getpwuid uid]\<rparr>)
             | None \<Rightarrow> (None, s))
          else (None, s)
      | [] \<Rightarrow> (None, s))"

definition cb_timestampowner ::
  "userdb \<Rightarrow> string \<Rightarrow> int \<Rightarrow> int \<Rightarrow> sudo_defs_val \<Rightarrow> int \<Rightarrow> sudoers \<Rightarrow> (bool \<times> sudoers) option" where
  "cb_timestampowner U file line column sd_un op s =
     (case str sd_un of
        None \<Rightarrow> None
      | Some user \<Rightarrow>
          (let (pw1, s1) = numeric_lookup U user s;
               (pw2, s2) =
                 (case pw1 of
                    None \<Rightarrow> (sudo_getpwnam U user, s1\<lparr>pw_queries := pw_queries s1 @ [Getpwnam user]\<rparr>)
                  | Some p \<Rightarrow> (Some p, s1))
           in case pw2 of
                None \<Rightarrow>
                  Some (False, s2\<lparr>audit_log := audit_log s2 @ [Unknown_user file line column user]\<rparr>)
              | Some p \<Rightarrow> Some (True, timestamp_set_owner (pw_uid p) (pw_gid p) s2)))"

subsection \<open>The handlers of callbacks.c that cannot fail\<close>




definition cb_logfile :: "sudo_defs_val \<Rightarrow> int \<Rightarrow> sudoers \<Rightarrow> bool \<times> sudoers" where
  "cb_logfile sd_un op s =
     (let logtype = (if def_syslog s \<noteq> 0 then EVLOG_SYSLOG else EVLOG_NONE);
          logtype' = (if str sd_un \<noteq> None then SET logtype EVLOG_FILE else logtype)
      in (True, s\<lparr>evl := eventlog_set_logpath (str sd_un) (eventlog_set_type logtype' (evl s))\<rparr>))"


definition cb_syslog :: "sudo_defs_val \<Rightarrow> int \<Rightarrow> sudoers \<Rightarrow> bool \<times> sudoers" where
  "cb_syslog sd_un op s =
     (let logtype = (if def_logfile s \<noteq> None then EVLOG_FILE else EVLOG_NONE);
          logtype' = (if str sd_un \<noteq> None then SET logtype EVLOG_SYSLOG else logtype)
      in (True, s\<lparr>evl := eventlog_set_type logtype' (evl s)\<rparr>))"
















section \<open>The callback registry\<close>

text \<open>
  The directives that \<open>set_callbacks\<close> names (def_data.h holds the full list); \<open>I_OTHER\<close>
  stands for every other index of \<open>sudo_defs_table\<close>.
\<close>

datatype directive =
    I_FQDN | I_GROUP_PLUGIN | I_RUNAS_DEFAULT | I_SUDOERS_LOCALE | I_MAXSEQ | I_IOLOG_USER
  | I_IOLOG_GROUP | I_IOLOG_MODE | I_TIMESTAMPOWNER | I_TTY_TICKETS | I_UMASK | I_RUNCHROOT
  | I_SYSLOG | I_SYSLOG_GOODPRI | I_SYSLOG_BADPRI | I_SYSLOG_MAXLEN | I_LOGLINELEN | I_LOG_HOST
  | I_LOGFILE | I_LOG_FORMAT | I_LOG_YEAR | I_MAILERPATH | I_MAILERFLAGS | I_MAILFROM | I_MAILTO
  | I_MAILSUB | I_PASSPROMPT_REGEX | I_INTERCEPT_TYPE | I_INTERCEPT_ALLOW_SETID | I_LOG_INPUT
  | I_LOG_OUTPUT | I_OTHER nat


















subsection \<open>Applying a directive\<close>

text \<open>
  Modelled from the spec: the settings layer (defaults.c, not under src) makes the value the
  directive's current value (spec section 3, Directive Value) and then calls the handler
  with it.
\<close>

definition apply_logfile :: "sudo_defs_val \<Rightarrow> int \<Rightarrow> sudoers \<Rightarrow> bool \<times> sudoers" where
  "apply_logfile v op s = cb_logfile v op (s\<lparr>def_logfile := str v\<rparr>)"

definition apply_syslog :: "sudo_defs_val \<Rightarrow> int \<Rightarrow> sudoers \<Rightarrow> bool \<times> sudoers" where
  "apply_syslog v op s = cb_syslog v op (s\<lparr>def_syslog := ival v\<rparr>)"

definition both_destinations :: "sudoers \<Rightarrow> bool" where
  \<comment> \<open>the destination mask holds the file bit and the syslog bit\<close>
  "both_destinations s =
     (ISSET (evl_type (evl s)) EVLOG_FILE \<and> ISSET (evl_type (evl s)) EVLOG_SYSLOG)"

subsection \<open>Example values\<close>

definition evl_example :: eventlog_config where
  "evl_example =
     \<lparr>evl_type = EVLOG_NONE, evl_format = EVLOG_SUDO, syslog_acceptpri = 5,
      syslog_rejectpri = 1, syslog_alertpri = 1, syslog_maxlen = 960, file_maxlen = 80,
      omit_hostname = False, logpath = None, time_fmt = ''%h %e %T'', mailerpath = None,
      mailerflags = None, mailfrom = None, mailto = None, mailsub = None\<rparr>"

definition sudoers_example :: sudoers where
  "sudoers_example =
     \<lparr>hosts = hosts_same, evl = evl_example, def_syslog = 80, def_logfile = None,
      def_timestamp_type = tty, def_intercept_allow_setid = False, def_log_stdin = 0,
      def_log_ttyin = 0, def_log_stdout = 0, def_log_stderr = 0, def_log_ttyout = 0,
      override_umask = False, user_ctx_flags = 0, user_ctx_cmnd = None, cmnd_status = 0,
      timestamp_uid = 0, timestamp_gid = 0, pw_queries = [], audit_log = []\<rparr>"

definition str_value :: "string \<Rightarrow> sudo_defs_val" where
  "str_value p = \<lparr>flag = False, ival = 0, str = Some p, mode = 0, tuple = never\<rparr>"


definition userdb_example :: userdb where
  "userdb_example =
     \<lparr>pwdb = [\<lparr>pw_name = ''root'', pw_uid = 0, pw_gid = 0\<rparr>,
              \<lparr>pw_name = ''alice'', pw_uid = 1000, pw_gid = 100\<rparr>],
      sudo_strtoid = (\<lambda>s. if s = ''0'' then Some 0 else if s = ''1000'' then Some 1000
                          else if s = ''4242'' then Some 4242 else None)\<rparr>"




section \<open>Path escapes of the I/O log (iolog_path_escapes.c)\<close>

text \<open>
  A generator writes into a buffer of \<open>strsize\<close> bytes and returns a \<open>size_t\<close>. Its result
  here is the C string the buffer holds afterwards and the value returned. \<open>snprintf\<close> and
  \<open>strlcpy\<close> write at most \<open>strsize - 1\<close> characters and return the length of the whole
  text, so a return value of \<open>strsize\<close> or more tells the caller that the text was cut.
\<close>

definition NUL :: char where "NUL = CHR 0x00"

definition c_str :: "string \<Rightarrow> string" where
  \<comment> \<open>bytes read as a C string: up to the first NUL\<close>
  "c_str bytes = takeWhile (\<lambda>c. c \<noteq> NUL) bytes"

definition SIZE_MAX :: nat where
  \<comment> \<open>\<open>(size_t)-1\<close> on a 64-bit target\<close>
  "SIZE_MAX = 2 ^ 64 - 1"

definition strlcpy :: "string \<Rightarrow> nat \<Rightarrow> string \<times> nat" where
  "strlcpy src strsize = (take (strsize - 1) src, length src)"

definition snprintf :: "nat \<Rightarrow> string \<Rightarrow> string \<times> int" where
  \<comment> \<open>the standard \<open>snprintf\<close> on the already formatted bytes\<close>
  "snprintf strsize bytes = (c_str (take (strsize - 1) bytes), int (length bytes))"

definition digit_char :: "nat \<Rightarrow> char" where
  "digit_char d = char_of (48 + d)"

fun decimal :: "nat \<Rightarrow> string" where
  "decimal n = (if n < 10 then [digit_char n] else decimal (n div 10) @ [digit_char (n mod 10)])"

declare decimal.simps [simp del]

record group =
  gr_name :: string
  gr_gid :: nat

text \<open>
  \<open>iolog_nextid(logdir, sessid)\<close> (lib/iolog, not under src) is a parameter: from the
  storage, the log root and the caller's buffer it gives the value returned, the buffer
  afterwards and the storage afterwards. The group database (spec section 6, lookup by
  numeric id) is a list of records.
\<close>

record 'd iolog_env =
  iolog_nextid :: "'d \<Rightarrow> string \<Rightarrow> string \<Rightarrow> bool \<times> string \<times> 'd"
  grdb :: "group list"

record 'd iolog_state =
  sessid :: string
  seq_storage :: 'd
  nextid_calls :: nat
  user_ctx_name :: string
  user_ctx_gid :: nat
  user_ctx_shost_text :: string
  user_ctx_cmnd_base :: string
  runas_ctx_pw_name :: string
  runas_ctx_pw_gid :: nat
  runas_ctx_gr_name :: "string option"

definition sudo_getgrgid :: "'d iolog_env \<Rightarrow> nat \<Rightarrow> group option" where
  "sudo_getgrgid A g = find (\<lambda>r. gr_gid r = g) (grdb A)"

text \<open>
  The generators. \<open>sessid\<close> is the static buffer \<open>char sessid[7]\<close> of \<open>fill_seq\<close>: seven
  bytes, all NUL when the process starts, so the reads of \<open>sessid[0]\<close> to \<open>sessid[5]\<close> are
  within it. \<open>nextid_calls\<close> counts the calls of \<open>iolog_nextid\<close>. The strings of \<open>user_ctx\<close>
  and \<open>runas_ctx\<close> are only read here, so the state holds their texts. \<open>fill_seq\<close> is the
  build without \<open>SUDOERS_NO_SEQ\<close>.
\<close>

type_synonym 'd generator = "nat \<Rightarrow> string \<Rightarrow> 'd iolog_state \<Rightarrow> (string \<times> nat) \<times> 'd iolog_state"

definition seq_bytes :: "string \<Rightarrow> string" where
  \<comment> \<open>the format \<open>"%c%c/%c%c/%c%c"\<close> on \<open>sessid[0..5]\<close>\<close>
  "seq_bytes sid =
     [sid ! 0, sid ! 1, CHR ''/'', sid ! 2, sid ! 3, CHR ''/'', sid ! 4, sid ! 5]"

definition render_seq :: "nat \<Rightarrow> 'd iolog_state \<Rightarrow> (string \<times> nat) \<times> 'd iolog_state" where
  \<comment> \<open>lines 53-58\<close>
  "render_seq strsize s =
     (case snprintf strsize (seq_bytes (sessid s)) of
        (txt, len) \<Rightarrow> if len < 0 then ((txt, strsize), s) else ((txt, nat len), s))"

definition call_nextid :: "'d iolog_env \<Rightarrow> string \<Rightarrow> 'd iolog_state \<Rightarrow> bool \<times> 'd iolog_state" where
  \<comment> \<open>the call \<open>iolog_nextid(logdir, sessid)\<close> on the static buffer\<close>
  "call_nextid A logdir s =
     (case iolog_nextid A (seq_storage s) logdir (sessid s) of
        (ok, buf, d) \<Rightarrow>
          (ok, s\<lparr>sessid := buf, seq_storage := d, nextid_calls := Suc (nextid_calls s)\<rparr>))"

definition fill_seq :: "'d iolog_env \<Rightarrow> 'd generator" where
  \<comment> \<open>on a failed allocation nothing is written to \<open>str\<close>: the text is empty here\<close>
  "fill_seq A strsize logdir s =
     (if sessid s ! 0 = NUL then
        (case call_nextid A logdir s of
           (False, s1) \<Rightarrow> (([], SIZE_MAX), s1)
         | (True, s1) \<Rightarrow> render_seq strsize s1)
      else render_seq strsize s)"

definition fill_user :: "'d generator" where
  "fill_user strsize unused s = (strlcpy (user_ctx_name s) strsize, s)"

definition gid_text :: "nat \<Rightarrow> string" where
  \<comment> \<open>the format \<open>"#%u"\<close> on \<open>(unsigned int)gid\<close>\<close>
  "gid_text g = CHR ''#'' # decimal (g mod 2 ^ 32)"

definition snprintf_len :: "nat \<Rightarrow> string \<Rightarrow> string \<times> nat" where
  \<comment> \<open>\<open>(size_t)snprintf(...)\<close> of the standard \<open>snprintf\<close>\<close>
  "snprintf_len strsize bytes = (case snprintf strsize bytes of (txt, len) \<Rightarrow> (txt, nat len))"

definition fill_group :: "'d iolog_env \<Rightarrow> 'd generator" where
  "fill_group A strsize unused s =
     (case sudo_getgrgid A (user_ctx_gid s) of
        Some grp \<Rightarrow> (strlcpy (gr_name grp) strsize, s)
      | None \<Rightarrow> (snprintf_len strsize (gid_text (user_ctx_gid s)), s))"

definition fill_runas_user :: "'d generator" where
  "fill_runas_user strsize unused s = (strlcpy (runas_ctx_pw_name s) strsize, s)"

definition fill_runas_group :: "'d iolog_env \<Rightarrow> 'd generator" where
  "fill_runas_group A strsize unused s =
     (case runas_ctx_gr_name s of
        Some n \<Rightarrow> (strlcpy n strsize, s)
      | None \<Rightarrow>
          (case sudo_getgrgid A (runas_ctx_pw_gid s) of
             Some grp \<Rightarrow> (strlcpy (gr_name grp) strsize, s)
           | None \<Rightarrow> (snprintf_len strsize (gid_text (runas_ctx_pw_gid s)), s)))"

definition fill_hostname :: "'d generator" where
  "fill_hostname strsize unused s = (strlcpy (user_ctx_shost_text s) strsize, s)"

definition fill_command :: "'d generator" where
  "fill_command strsize unused s = (strlcpy (user_ctx_cmnd_base s) strsize, s)"

definition path_escapes :: "'d iolog_env \<Rightarrow> (string \<times> 'd generator) list" where
  "path_escapes A =
     [(''seq'', fill_seq A), (''user'', fill_user), (''group'', fill_group A),
      (''runas_user'', fill_runas_user), (''runas_group'', fill_runas_group A),
      (''hostname'', fill_hostname), (''command'', fill_command)]"

subsection \<open>The path template expander\<close>

text \<open>
  Modelled from the spec: \<open>expand\<close> of spec section 4.4 (lib/iolog/iolog_path.c is not under
  src). The pattern is scanned from the left. A marker \<open>%{token}\<close> is looked up in the table
  by linear search: an unknown token ends the expansion with \<open>UnknownToken\<close>; a known one has
  its generator called with the room that is left and the shared context, and a returned
  length that does not fit ends the expansion with \<open>TooLong\<close>. Any other character is copied.
  The result, with its terminator, never exceeds \<open>maxlen\<close> bytes.
\<close>

datatype template_error = UnknownToken | TooLong

fun split_marker :: "string \<Rightarrow> (string \<times> string) option" where
  \<comment> \<open>the token up to the closing brace, and what follows the brace\<close>
  "split_marker [] = None"
| "split_marker (c # cs) =
     (if c = CHR ''}'' then Some ([], cs)
      else (case split_marker cs of None \<Rightarrow> None | Some (tok, rest) \<Rightarrow> Some (c # tok, rest)))"

fun marker_at :: "string \<Rightarrow> (string \<times> string) option" where
  \<comment> \<open>a marker \<open>%{token}\<close> at the head of the pattern\<close>
  "marker_at (a # b # cs) = (if a = CHR ''%'' \<and> b = CHR ''{'' then split_marker cs else None)"
| "marker_at cs = None"

fun lookup_escape :: "(string \<times> 'g) list \<Rightarrow> string \<Rightarrow> 'g option" where
  "lookup_escape [] tok = None"
| "lookup_escape ((name, g) # es) tok = (if name = tok then Some g else lookup_escape es tok)"

lemma split_marker_shorter: "split_marker cs = Some (tok, rest) \<Longrightarrow> length rest < length cs"
  by (induction cs arbitrary: tok rest) (auto split: if_splits option.splits)

lemma marker_at_shorter: "marker_at cs = Some (tok, rest) \<Longrightarrow> length rest < length cs"
  by (cases cs rule: marker_at.cases) (auto split: if_splits dest: split_marker_shorter)

function expand ::
  "(string \<times> 'd generator) list \<Rightarrow> nat \<Rightarrow> string \<Rightarrow> string \<Rightarrow> string \<Rightarrow> 'd iolog_state \<Rightarrow>
   (template_error + string) \<times> 'd iolog_state" where
  "expand escapes maxlen closure [] acc s = (Inr acc, s)"
| "expand escapes maxlen closure (c # cs) acc s =
     (case marker_at (c # cs) of
        Some (tok, rest) \<Rightarrow>
          (case lookup_escape escapes tok of
             None \<Rightarrow> (Inl UnknownToken, s)
           | Some g \<Rightarrow>
               (case g (maxlen - length acc) closure s of
                  ((txt, len), s1) \<Rightarrow>
                    if len \<ge> maxlen - length acc then (Inl TooLong, s1)
                    else expand escapes maxlen closure rest (acc @ txt) s1))
      | None \<Rightarrow>
          if Suc (length acc) \<ge> maxlen then (Inl TooLong, s)
          else expand escapes maxlen closure cs (acc @ [c]) s)"
  by pat_completeness auto
termination
  by (relation "measure (\<lambda>(escapes, maxlen, closure, pattern, acc, s). length pattern)")
     (auto dest: marker_at_shorter)

subsection \<open>Calling the sequence generator repeatedly\<close>

fun fill_seq_calls ::
  "'d iolog_env \<Rightarrow> (nat \<times> string) list \<Rightarrow> 'd iolog_state \<Rightarrow> (string \<times> nat) list \<times> 'd iolog_state" where
  "fill_seq_calls A [] s = ([], s)"
| "fill_seq_calls A ((strsize, logdir) # cs) s =
     (case fill_seq A strsize logdir s of
        (r, s1) \<Rightarrow> (case fill_seq_calls A cs s1 of (rs, s2) \<Rightarrow> (r # rs, s2)))"

definition iolog_example :: "nat iolog_state" where
  "iolog_example =
     \<lparr>sessid = replicate 7 NUL, seq_storage = 0, nextid_calls = 0, user_ctx_name = ''alice'',
      user_ctx_gid = 100, user_ctx_shost_text = ''build'', user_ctx_cmnd_base = ''ls'',
      runas_ctx_pw_name = ''root'', runas_ctx_pw_gid = 0, runas_ctx_gr_name = None\<rparr>"

definition allocator_example :: "nat iolog_env" where
  \<comment> \<open>the storage is a counter: the first request fails, the second issues \<open>A1B2C3\<close>\<close>
  "allocator_example =
     \<lparr>iolog_nextid = (\<lambda>d dir buf. if d = 0 then (False, buf, 1)
                                   else if d = 1 then (True, ''A1B2C3'' @ [NUL], 2)
                                   else (True, ''A1B2C4'' @ [NUL], Suc d)),
      grdb = [\<lparr>gr_name = ''users'', gr_gid = 100\<rparr>]\<rparr>"

definition allocator_leaky :: "nat iolog_env" where
  \<comment> \<open>an allocator that writes the id into the caller's buffer and then reports failure\<close>
  "allocator_leaky =
     \<lparr>iolog_nextid = (\<lambda>d dir buf. (False, ''A1B2C3'' @ [NUL], Suc d)),
      grdb = [\<lparr>gr_name = ''users'', gr_gid = 100\<rparr>]\<rparr>"

section \<open>Properties of the host handlers\<close>

lemma strchr_dot:
  "strchr s c = Some n \<Longrightarrow> c \<in> set s \<and> strndup_text s n = takeWhile (\<lambda>x. x \<noteq> c) s"
  by (auto simp: strchr_def strndup_text_def takeWhile_eq_take [symmetric] split: if_splits)

lemma strchr_None: "strchr s c = None \<longleftrightarrow> c \<notin> set s"
  by (simp add: strchr_def)

lemma resolve_host_Some:
  assumes "resolve_host E p outs s = Some (rc, outs', s')"
  shows "\<exists>name ret canon. load s p = Some name \<and> getaddrinfo E (gai_calls s) name = (ret, canon) \<and>
    ((ret \<noteq> 0 \<and> rc = ret \<and> outs' = outs \<and> s' = s\<lparr>gai_calls := Suc (gai_calls s)\<rparr>)
   \<or> (ret = 0 \<and> malloc_fails E (mallocs s) \<and> rc = EAI_MEMORY \<and> outs' = outs \<and>
        s' = s\<lparr>gai_calls := Suc (gai_calls s), mallocs := Suc (mallocs s)\<rparr>)
   \<or> (ret = 0 \<and> \<not> malloc_fails E (mallocs s) \<and> CHR ''.'' \<notin> set canon \<and> rc = 0 \<and>
        outs' = (Some (length (cells s)), Some (length (cells s))) \<and>
        s' = s\<lparr>gai_calls := Suc (gai_calls s), cells := cells s @ [Some canon],
               mallocs := Suc (mallocs s)\<rparr>)
   \<or> (ret = 0 \<and> \<not> malloc_fails E (mallocs s) \<and> CHR ''.'' \<in> set canon \<and>
        malloc_fails E (Suc (mallocs s)) \<and> rc = EAI_MEMORY \<and> outs' = outs \<and>
        s' = s\<lparr>gai_calls := Suc (gai_calls s), cells := cells s @ [None],
               mallocs := Suc (Suc (mallocs s))\<rparr>)
   \<or> (ret = 0 \<and> \<not> malloc_fails E (mallocs s) \<and> CHR ''.'' \<in> set canon \<and>
        \<not> malloc_fails E (Suc (mallocs s)) \<and> rc = 0 \<and>
        outs' = (Some (length (cells s)), Some (Suc (length (cells s)))) \<and>
        s' = s\<lparr>gai_calls := Suc (gai_calls s),
               cells := cells s @ [Some canon, Some (takeWhile (\<lambda>x. x \<noteq> CHR ''.'') canon)],
               mallocs := Suc (Suc (mallocs s))\<rparr>))"
  using assms
  unfolding resolve_host_def strdup_def free_def load_def Let_def
  by (auto split: option.splits prod.splits if_splits simp: strchr_None dest!: strchr_dot)

lemma resolve_host_total:
  "load s p = Some name \<Longrightarrow> \<exists>rc outs' s'. resolve_host E p outs s = Some (rc, outs', s')"
  unfolding resolve_host_def strdup_def free_def load_def Let_def
  by (auto split: option.splits prod.splits if_splits)

lemma frame_refl: "frame s s"
  by (simp add: frame_def)

lemma frame_length: "frame s s' \<Longrightarrow> length (cells s) \<le> length (cells s')"
proof -
  assume "frame s s'"
  then have "length (take (length (cells s)) (cells s')) = length (cells s)"
    by (simp add: frame_def)
  then show ?thesis by simp
qed

lemma frame_trans: "frame s s' \<Longrightarrow> frame s' s'' \<Longrightarrow> frame s s''"
proof -
  assume a: "frame s s'" and b: "frame s' s''"
  have le: "length (cells s) \<le> length (cells s')" using a by (rule frame_length)
  have "take (length (cells s)) (cells s'') = take (length (cells s)) (take (length (cells s')) (cells s''))"
    using le by (simp add: min_def)
  also have "\<dots> = cells s" using a b by (simp add: frame_def)
  finally show ?thesis using a b by (simp add: frame_def)
qed

lemma frame_load: "frame s s' \<Longrightarrow> live s p \<Longrightarrow> load s' p = load s p"
proof (cases p)
  case None
  then show ?thesis by (simp add: load_def)
next
  case (Some a)
  assume f: "frame s s'" and l: "live s p"
  from l Some have lt: "a < length (cells s)"
    by (auto simp: live_def load_def split: if_splits)
  have "cells s ! a = take (length (cells s)) (cells s') ! a"
    using f by (simp add: frame_def)
  also have "\<dots> = cells s' ! a" using lt by simp
  finally show ?thesis using Some lt frame_length [OF f] by (simp add: load_def)
qed

lemma frame_live: "frame s s' \<Longrightarrow> live s p \<Longrightarrow> live s' p"
  using frame_load [of s s' p] by (simp add: live_def)

lemma live_bound: "live s (Some a) \<Longrightarrow> a < length (cells s)"
  by (auto simp: live_def load_def split: if_splits)

lemma resolve_host_frame:
  assumes "resolve_host E p outs s = Some (rc, outs', s')"
  shows "frame s s' \<and> gai_calls s' = Suc (gai_calls s) \<and> warnings s' = warnings s"
  using resolve_host_Some [OF assms] by (auto simp: frame_def)

lemma resolve_host_failed:
  assumes "resolve_host E p outs s = Some (rc, outs', s')" and "rc \<noteq> 0"
  shows "outs' = outs \<and> load s' = load s"
  using resolve_host_Some [OF assms(1)] assms(2)
  by (auto simp: load_def fun_eq_iff nth_append split: option.splits)

lemma resolve_host_fresh:
  assumes "resolve_host E p outs s = Some (0, (l, sh), s')"
  shows "fresh s s' l \<and> fresh s s' sh"
  using resolve_host_Some [OF assms]
  by (auto simp: fresh_def live_def load_def nth_append EAI_MEMORY_def)

lemma free_Some:
  "live s (Some a) \<Longrightarrow> free (Some a) s = Some (s\<lparr>cells := (cells s)[a := None]\<rparr>)"
  by (simp add: free_def live_def)

lemma install_user_hosts_Some:
  assumes "live s (user_ctx_host s)" and "live s (user_ctx_shost s)"
  shows "\<exists>s'. install_user_hosts l sh s = Some s' \<and>
           user_ctx_host s' = l \<and> user_ctx_shost s' = sh \<and>
           runas_ctx_host s' = runas_ctx_host s \<and> runas_ctx_shost s' = runas_ctx_shost s \<and>
           length (cells s') = length (cells s) \<and> mallocs s' = mallocs s \<and>
           gai_calls s' = gai_calls s \<and> warnings s' = warnings s \<and>
           (\<forall>p. p \<noteq> user_ctx_host s \<and> p \<noteq> user_ctx_shost s \<longrightarrow> load s' p = load s p)"
proof -
  from assms obtain a b where ab: "user_ctx_host s = Some a" "user_ctx_shost s = Some b"
    by (auto simp: live_def load_def split: option.splits)
  show ?thesis
    using assms ab unfolding install_user_hosts_def
    by (auto simp: free_def live_def load_def nth_list_update split: option.splits if_splits)
qed

lemma install_runas_hosts_Some:
  assumes "live s (runas_ctx_host s)" and "live s (runas_ctx_shost s)"
    and "l \<noteq> None" and "sh \<noteq> None"
  shows "\<exists>s'. install_runas_hosts l sh s = Some s' \<and>
           runas_ctx_host s' = l \<and> runas_ctx_shost s' = sh \<and>
           user_ctx_host s' = user_ctx_host s \<and> user_ctx_shost s' = user_ctx_shost s \<and>
           length (cells s') = length (cells s) \<and> mallocs s' = mallocs s \<and>
           gai_calls s' = gai_calls s \<and> warnings s' = warnings s \<and>
           (\<forall>p. p \<noteq> runas_ctx_host s \<and> p \<noteq> runas_ctx_shost s \<longrightarrow> load s' p = load s p)"
proof -
  from assms obtain a b where ab: "runas_ctx_host s = Some a" "runas_ctx_shost s = Some b"
    by (auto simp: live_def load_def split: option.splits)
  show ?thesis
    using assms ab unfolding install_runas_hosts_def
    by (auto simp: free_def live_def load_def nth_list_update split: option.splits if_splits)
qed

lemma dup_user_hosts_Some:
  assumes "load s (user_ctx_host s) = Some ht" and "load s (user_ctx_shost s) = Some st"
  shows "dup_user_hosts E s =
     Some (if malloc_fails E (mallocs s) then (None, None, s\<lparr>mallocs := Suc (mallocs s)\<rparr>)
           else if user_ctx_shost s = user_ctx_host s then
             (Some (length (cells s)), Some (length (cells s)),
              s\<lparr>cells := cells s @ [Some ht], mallocs := Suc (mallocs s)\<rparr>)
           else if malloc_fails E (Suc (mallocs s)) then
             (Some (length (cells s)), None,
              s\<lparr>cells := cells s @ [Some ht], mallocs := Suc (Suc (mallocs s))\<rparr>)
           else
             (Some (length (cells s)), Some (Suc (length (cells s))),
              s\<lparr>cells := cells s @ [Some ht, Some st], mallocs := Suc (Suc (mallocs s))\<rparr>))"
  using assms unfolding dup_user_hosts_def strdup_def
  by (auto simp: load_def nth_append split: option.splits if_splits)

lemma resolve_runas_local:
  assumes "load s (user_ctx_host s) = Some ht" and "load s (user_ctx_shost s) = Some st"
  shows "resolve_runas E False s =
     Some (if malloc_fails E (mallocs s) then
             (False, None, None,
              s\<lparr>mallocs := Suc (mallocs s),
                warnings := warnings s @ [Sudo_warnx ''unable to allocate memory'']\<rparr>)
           else if user_ctx_shost s = user_ctx_host s then
             (True, Some (length (cells s)), Some (length (cells s)),
              s\<lparr>cells := cells s @ [Some ht], mallocs := Suc (mallocs s)\<rparr>)
           else if malloc_fails E (Suc (mallocs s)) then
             (False, Some (length (cells s)), None,
              s\<lparr>cells := cells s @ [None], mallocs := Suc (Suc (mallocs s)),
                warnings := warnings s @ [Sudo_warnx ''unable to allocate memory'']\<rparr>)
           else
             (True, Some (length (cells s)), Some (Suc (length (cells s))),
              s\<lparr>cells := cells s @ [Some ht, Some st], mallocs := Suc (Suc (mallocs s))\<rparr>))"
  unfolding resolve_runas_def
  by (simp add: dup_user_hosts_Some [OF assms] free_def load_def)

lemma fresh_live: "fresh s s' p \<Longrightarrow> live s' p"
  by (auto simp: fresh_def split: option.splits)

lemma fresh_not_live: "fresh s s' p \<Longrightarrow> live s q \<Longrightarrow> p \<noteq> q"
  by (auto simp: fresh_def split: option.splits dest: live_bound)

lemma fresh_frame: "fresh s s' p \<Longrightarrow> frame s' s'' \<Longrightarrow> fresh s s'' p"
  by (auto simp: fresh_def split: option.splits dest: frame_live)

lemma fresh_mono: "fresh s' s'' p \<Longrightarrow> frame s s' \<Longrightarrow> fresh s s'' p"
  by (auto simp: fresh_def split: option.splits dest: frame_length)

lemma resolve_user_summary:
  assumes "live s (user_ctx_host s)" and "live s (runas_ctx_host s)"
  shows "\<exists>ok l sh s1. resolve_user E s = Some (ok, l, sh, s1) \<and> frame s s1 \<and>
           (ok \<longrightarrow> fresh s s1 l \<and> fresh s s1 sh)"
proof -
  from assms(1) obtain uname where u: "load s (user_ctx_host s) = Some uname"
    by (auto simp: live_def)
  from resolve_host_total [OF u] obtain rc1 l1 sh1 s1
    where r1: "resolve_host E (user_ctx_host s) (None, None) s = Some (rc1, (l1, sh1), s1)"
    by fastforce
  note f1 = resolve_host_frame [OF r1]
  show ?thesis
  proof (cases "rc1 = 0")
    case True
    with r1 have r1': "resolve_host E (user_ctx_host s) (None, None) s = Some (0, (l1, sh1), s1)"
      by simp
    from resolve_host_fresh [OF r1'] r1' f1 show ?thesis
      by (auto simp: resolve_user_def)
  next
    case False
    have "live s1 (runas_ctx_host s)"
      using f1 assms(2) by (blast intro: frame_live)
    then have "live s1 (runas_ctx_host s1)"
      using f1 by (simp add: frame_def)
    then obtain rname where rn: "load s1 (runas_ctx_host s1) = Some rname"
      by (auto simp: live_def)
    from resolve_host_total [OF rn] obtain rc2 l2 sh2 s2
      where r2: "resolve_host E (runas_ctx_host s1) (l1, sh1) s1 = Some (rc2, (l2, sh2), s2)"
      by fastforce
    note f2 = resolve_host_frame [OF r2]
    have f: "frame s s2" using f1 f2 by (blast intro: frame_trans)
    show ?thesis
    proof (cases "rc2 = 0")
      case True
      with r2 have "fresh s1 s2 l2 \<and> fresh s1 s2 sh2"
        using resolve_host_fresh [of E _ _ s1 l2 sh2 s2] by simp
      then have "fresh s s2 l2 \<and> fresh s s2 sh2"
        using f1 by (blast intro: fresh_mono)
      with True False r1 r2 f show ?thesis
        by (auto simp: resolve_user_def)
    next
      case F2: False
      have "live s2 (user_ctx_host s)"
        using f assms(1) by (blast intro: frame_live)
      then have "live s2 (user_ctx_host s2)"
        using f by (simp add: frame_def)
      then obtain un where "load s2 (user_ctx_host s2) = Some un"
        by (auto simp: live_def)
      with F2 False r1 r2 f show ?thesis
        by (auto simp: resolve_user_def frame_def)
    qed
  qed
qed

lemma resolve_runas_summary:
  assumes "live s (user_ctx_host s)" and "live s (user_ctx_shost s)"
    and "live s (runas_ctx_host s)"
  shows "\<exists>ok l sh s1. resolve_runas E remote s = Some (ok, l, sh, s1) \<and> frame s s1 \<and>
           (ok \<longrightarrow> fresh s s1 l \<and> fresh s s1 sh)"
proof (cases remote)
  case True
  from assms(3) obtain rname where u: "load s (runas_ctx_host s) = Some rname"
    by (auto simp: live_def)
  from resolve_host_total [OF u] obtain rc1 l1 sh1 s1
    where r1: "resolve_host E (runas_ctx_host s) (None, None) s = Some (rc1, (l1, sh1), s1)"
    by fastforce
  note f1 = resolve_host_frame [OF r1]
  have "live s1 (runas_ctx_host s)"
    using f1 assms(3) by (blast intro: frame_live)
  then have "live s1 (runas_ctx_host s1)"
    using f1 by (simp add: frame_def)
  then obtain rn where rn: "load s1 (runas_ctx_host s1) = Some rn"
    by (auto simp: live_def)
  show ?thesis
  proof (cases "rc1 = 0")
    case T: True
    with r1 have r1': "resolve_host E (runas_ctx_host s) (None, None) s = Some (0, (l1, sh1), s1)"
      by simp
    from resolve_host_fresh [OF r1'] r1' f1 True show ?thesis
      by (auto simp: resolve_runas_def)
  next
    case False
    with True r1 f1 rn show ?thesis
      by (auto simp: resolve_runas_def frame_def)
  qed
next
  case False
  from assms obtain ht st where
    h: "load s (user_ctx_host s) = Some ht" "load s (user_ctx_shost s) = Some st"
    by (auto simp: live_def)
  show ?thesis
    using False
    by (auto simp: resolve_runas_local [OF h] frame_def fresh_def live_def load_def nth_append)
qed

lemma cb_fqdn_disabled: "\<not> fqdn_enabled sd_un \<Longrightarrow> cb_fqdn E sd_un op s = Some (True, s)"
  by (auto simp: cb_fqdn_def fqdn_enabled_def split: option.splits)

lemma hosts_ok_distinct:
  assumes "hosts_ok s"
  shows "runas_ctx_host s \<noteq> user_ctx_host s" "runas_ctx_host s \<noteq> user_ctx_shost s"
    "runas_ctx_shost s \<noteq> user_ctx_host s" "runas_ctx_shost s \<noteq> user_ctx_shost s"
  using assms
  by (auto simp: hosts_ok_def shares_storage_def same_storage_def live_def load_def
           split: option.splits)

lemma cb_fqdn_pipeline:
  assumes ok: "hosts_ok s" and en: "fqdn_enabled sd_un"
    and ru: "resolve_user E s = Some (True, l, sh, s1)"
    and f1: "frame s s1" and fl: "fresh s s1 l" and fsh: "fresh s s1 sh"
  shows "\<exists>s2 ok2 l2 sh2 s3 s'.
           install_user_hosts l sh s1 = Some s2 \<and>
           resolve_runas E (load s (runas_ctx_host s) \<noteq> load s (user_ctx_host s)) s2
             = Some (ok2, l2, sh2, s3) \<and>
           (if ok2 then install_runas_hosts l2 sh2 s3 = Some s' else s' = s3) \<and>
           cb_fqdn E sd_un op s = Some (ok2, s') \<and> hosts_ok s' \<and>
           user_ctx_host s' = l \<and> user_ctx_shost s' = sh \<and>
           load s' l = load s1 l \<and> load s' sh = load s1 sh \<and>
           mallocs s2 = mallocs s1 \<and> gai_calls s2 = gai_calls s1 \<and>
           gai_calls s' = gai_calls s3 \<and>
           user_ctx_host s2 = l \<and> user_ctx_shost s2 = sh \<and>
           load s2 l = load s1 l \<and> load s2 sh = load s1 sh \<and>
           (ok2 \<longrightarrow> runas_ctx_host s' = l2 \<and> runas_ctx_shost s' = sh2 \<and>
                   load s' l2 = load s3 l2 \<and> load s' sh2 = load s3 sh2 \<and>
                   fresh s1 s' l2 \<and> fresh s1 s' sh2) \<and>
           (\<not> ok2 \<longrightarrow> runas_ctx_host s' = runas_ctx_host s \<and>
                     runas_ctx_shost s' = runas_ctx_shost s)"
proof -
  let ?uh = "user_ctx_host s" and ?us = "user_ctx_shost s"
  let ?rh = "runas_ctx_host s" and ?rs = "runas_ctx_shost s"
  from ok have lv: "live s ?uh" "live s ?us" "live s ?rh" "live s ?rs"
    by (simp_all add: hosts_ok_def)
  note d = hosts_ok_distinct [OF ok]
  from lv obtain uname rname where un: "load s ?uh = Some uname" and rn: "load s ?rh = Some rname"
    by (auto simp: live_def)
  have p1: "user_ctx_host s1 = ?uh" "user_ctx_shost s1 = ?us"
    "runas_ctx_host s1 = ?rh" "runas_ctx_shost s1 = ?rs"
    using f1 by (simp_all add: frame_def)
  have lv1: "live s1 ?uh" "live s1 ?us" "live s1 ?rh" "live s1 ?rs"
    using lv f1 by (blast intro: frame_live)+
  have nl: "l \<noteq> ?uh" "l \<noteq> ?us" "l \<noteq> ?rh" "l \<noteq> ?rs"
    and nsh: "sh \<noteq> ?uh" "sh \<noteq> ?us" "sh \<noteq> ?rh" "sh \<noteq> ?rs"
    using fl fsh lv by (blast dest: fresh_not_live)+
  from install_user_hosts_Some [of s1 l sh] lv1 p1
  obtain s2 where i2: "install_user_hosts l sh s1 = Some s2"
    and p2: "user_ctx_host s2 = l" "user_ctx_shost s2 = sh"
      "runas_ctx_host s2 = ?rh" "runas_ctx_shost s2 = ?rs"
    and len2: "length (cells s2) = length (cells s1)"
    and c2: "mallocs s2 = mallocs s1" "gai_calls s2 = gai_calls s1"
    and ld2: "\<And>p. p \<noteq> ?uh \<Longrightarrow> p \<noteq> ?us \<Longrightarrow> load s2 p = load s1 p"
    by auto
  have lv2: "live s2 l" "live s2 sh" "live s2 ?rh" "live s2 ?rs"
    using ld2 nl nsh d fl fsh lv1 by (auto simp: live_def dest: fresh_live)
  from resolve_runas_summary [of s2 E "load s ?rh \<noteq> load s ?uh"] lv2 p2
  obtain ok2 l2 sh2 s3 where
    rr: "resolve_runas E (load s ?rh \<noteq> load s ?uh) s2 = Some (ok2, l2, sh2, s3)"
    and f3: "frame s2 s3" and fr3: "ok2 \<Longrightarrow> fresh s2 s3 l2 \<and> fresh s2 s3 sh2"
    by auto
  have p3: "user_ctx_host s3 = l" "user_ctx_shost s3 = sh"
    "runas_ctx_host s3 = ?rh" "runas_ctx_shost s3 = ?rs"
    using f3 p2 by (simp_all add: frame_def)
  have lv3: "live s3 l" "live s3 sh" "live s3 ?rh" "live s3 ?rs"
    using lv2 f3 by (blast intro: frame_live)+
  have ld3: "load s3 l = load s1 l" "load s3 sh = load s1 sh"
    using frame_load [OF f3 lv2(1)] frame_load [OF f3 lv2(2)] ld2 nl nsh by simp_all
  have cb: "cb_fqdn E sd_un op s =
     (if ok2 then do { s4 \<leftarrow> install_runas_hosts l2 sh2 s3; Some (True, s4) }
      else Some (False, s3))"
    using en un rn ru i2 rr
    by (auto simp: cb_fqdn_def fqdn_enabled_def split: option.splits)
  show ?thesis
  proof (cases ok2)
    case False
    have "hosts_ok s3"
      using lv3 p3 nl nsh
      by (auto simp: hosts_ok_def shares_storage_def same_storage_def)
    with False i2 rr cb p3 ld3 c2 p2 ld2 nl nsh show ?thesis by auto
  next
    case True
    from fr3 True have fr: "fresh s2 s3 l2" "fresh s2 s3 sh2" by simp_all
    then have nn: "l2 \<noteq> None" "sh2 \<noteq> None"
      by (auto simp: fresh_def split: option.splits)
    have n2: "l2 \<noteq> l" "l2 \<noteq> sh" "l2 \<noteq> ?rh" "l2 \<noteq> ?rs"
      "sh2 \<noteq> l" "sh2 \<noteq> sh" "sh2 \<noteq> ?rh" "sh2 \<noteq> ?rs"
      using fr lv2 by (blast dest: fresh_not_live)+
    from install_runas_hosts_Some [of s3 l2 sh2] lv3 p3 nn
    obtain s4 where i4: "install_runas_hosts l2 sh2 s3 = Some s4"
      and p4: "runas_ctx_host s4 = l2" "runas_ctx_shost s4 = sh2"
        "user_ctx_host s4 = l" "user_ctx_shost s4 = sh"
      and len4: "length (cells s4) = length (cells s3)"
      and c4: "gai_calls s4 = gai_calls s3"
      and ld4: "\<And>p. p \<noteq> ?rh \<Longrightarrow> p \<noteq> ?rs \<Longrightarrow> load s4 p = load s3 p"
      by auto
    have ld4': "load s4 l = load s3 l" "load s4 sh = load s3 sh"
      "load s4 l2 = load s3 l2" "load s4 sh2 = load s3 sh2"
      using ld4 nl nsh n2 by simp_all
    have lv4: "live s4 l" "live s4 sh" "live s4 l2" "live s4 sh2"
      using ld4' lv3 fr by (auto simp: live_def dest: fresh_live)
    have hok: "hosts_ok s4"
      using lv4 p4 n2
      by (auto simp: hosts_ok_def shares_storage_def same_storage_def)
    have frs: "fresh s1 s4 l2" "fresh s1 s4 sh2"
      using fr lv4 len2 by (auto simp: fresh_def split: option.splits)
    from True i2 rr cb i4 hok p4 ld4' ld3 c2 c4 frs p2 ld2 nl nsh show ?thesis by auto
  qed
qed

lemma cb_fqdn_invariant:
  assumes "hosts_ok s"
  shows "\<exists>ok s'. cb_fqdn E sd_un op s = Some (ok, s') \<and> hosts_ok s'"
proof (cases "fqdn_enabled sd_un")
  case False
  with assms show ?thesis by (auto simp: cb_fqdn_disabled)
next
  case True
  from assms have lv: "live s (user_ctx_host s)" "live s (runas_ctx_host s)"
    by (simp_all add: hosts_ok_def)
  from resolve_user_summary [OF lv, of E] obtain ok1 l sh s1 where
    ru: "resolve_user E s = Some (ok1, l, sh, s1)" and f1: "frame s s1"
    and fr: "ok1 \<Longrightarrow> fresh s s1 l \<and> fresh s s1 sh"
    by auto
  show ?thesis
  proof (cases ok1)
    case T: True
    with fr have "fresh s s1 l" "fresh s s1 sh" by simp_all
    with cb_fqdn_pipeline [OF assms True, of E l sh s1 op] ru T f1 show ?thesis
      by fastforce
  next
    case False
    from lv obtain uname rname where "load s (user_ctx_host s) = Some uname"
      "load s (runas_ctx_host s) = Some rname"
      by (auto simp: live_def)
    with True False ru have "cb_fqdn E sd_un op s = Some (False, s1)"
      by (auto simp: cb_fqdn_def fqdn_enabled_def split: option.splits)
    moreover have "hosts_ok s1"
      using assms f1 frame_live [OF f1]
      by (auto simp: hosts_ok_def frame_def shares_storage_def)
    ultimately show ?thesis by auto
  qed
qed

lemma takeWhile_absent: "c \<notin> set s \<Longrightarrow> takeWhile (\<lambda>x. x \<noteq> c) s = s"
  by (induction s) auto

lemma resolve_host_texts:
  assumes "resolve_host E p outs s = Some (0, (l, sh), s')"
  shows "\<exists>name canon. load s p = Some name \<and> getaddrinfo E (gai_calls s) name = (0, canon) \<and>
           load s' l = Some canon \<and>
           load s' sh = Some (takeWhile (\<lambda>c. c \<noteq> CHR ''.'') canon) \<and>
           (if CHR ''.'' \<in> set canon then sh \<noteq> l else sh = l)"
proof -
  from resolve_host_Some [OF assms] obtain name ret canon where
    n: "load s p = Some name" and g: "getaddrinfo E (gai_calls s) name = (ret, canon)"
    and c: "(CHR ''.'' \<notin> set canon \<and> ret = 0 \<and>
             l = Some (length (cells s)) \<and> sh = Some (length (cells s)) \<and>
             cells s' = cells s @ [Some canon]) \<or>
            (CHR ''.'' \<in> set canon \<and> ret = 0 \<and>
             l = Some (length (cells s)) \<and> sh = Some (Suc (length (cells s))) \<and>
             cells s' = cells s @ [Some canon, Some (takeWhile (\<lambda>x. x \<noteq> CHR ''.'') canon)])"
    by (auto simp: EAI_MEMORY_def)
  from c have "ret = 0 \<and> load s' l = Some canon \<and>
           load s' sh = Some (takeWhile (\<lambda>c. c \<noteq> CHR ''.'') canon) \<and>
           (if CHR ''.'' \<in> set canon then sh \<noteq> l else sh = l)"
    by (auto simp: load_def nth_append takeWhile_absent)
  with n g show ?thesis by auto
qed

lemma resolve_host_rc0_iff:
  assumes "resolve_host E p outs s = Some (rc, outs', s')"
  shows "\<exists>name ret canon. load s p = Some name \<and> getaddrinfo E (gai_calls s) name = (ret, canon) \<and>
           (rc = 0 \<longleftrightarrow> ret = 0 \<and> \<not> malloc_fails E (mallocs s) \<and>
                       (CHR ''.'' \<in> set canon \<longrightarrow> \<not> malloc_fails E (Suc (mallocs s))))"
  using resolve_host_Some [OF assms] by (auto simp: EAI_MEMORY_def)

lemma resolve_host_succeeds:
  assumes "load s p = Some name" and "getaddrinfo E (gai_calls s) name = (0, canon)"
    and "\<not> malloc_fails E (mallocs s)"
    and "CHR ''.'' \<in> set canon \<longrightarrow> \<not> malloc_fails E (Suc (mallocs s))"
  shows "\<exists>l sh s'. resolve_host E p outs s = Some (0, (l, sh), s')"
proof -
  from resolve_host_total [OF assms(1), of E outs] obtain rc outs' s' where
    r: "resolve_host E p outs s = Some (rc, outs', s')" by blast
  from resolve_host_rc0_iff [OF r] assms have "rc = 0" by auto
  with r show ?thesis by (cases outs') auto
qed

lemma resolve_runas_remote:
  assumes "resolve_runas E True s = Some (ok, l, sh, s')"
  shows "\<exists>rc outs s1. resolve_host E (runas_ctx_host s) (None, None) s = Some (rc, outs, s1) \<and>
           ok = (rc = 0)"
  using assms unfolding resolve_runas_def
  by (auto split: option.splits prod.splits if_splits bind_splits)

lemma install_keeps_runas:
  assumes ok: "hosts_ok s" and f1: "frame s s1" and i: "install_user_hosts l sh s1 = Some s2"
  shows "runas_ctx_host s2 = runas_ctx_host s \<and>
         load s2 (runas_ctx_host s) = load s (runas_ctx_host s)"
proof -
  let ?uh = "user_ctx_host s" and ?us = "user_ctx_shost s"
  let ?rh = "runas_ctx_host s" and ?rs = "runas_ctx_shost s"
  from ok have lv: "live s ?uh" "live s ?us" "live s ?rh"
    by (simp_all add: hosts_ok_def)
  note d = hosts_ok_distinct [OF ok]
  have p1: "user_ctx_host s1 = ?uh" "user_ctx_shost s1 = ?us" "runas_ctx_host s1 = ?rh"
    using f1 by (simp_all add: frame_def)
  have lv1: "live s1 (user_ctx_host s1)" "live s1 (user_ctx_shost s1)"
    using lv f1 p1 by (auto intro: frame_live)
  from install_user_hosts_Some [OF lv1, of l sh] i p1
  have a: "runas_ctx_host s2 = ?rh"
    and b: "\<forall>p. p \<noteq> ?uh \<and> p \<noteq> ?us \<longrightarrow> load s2 p = load s1 p"
    by auto
  from b d have "load s2 ?rh = load s1 ?rh" by simp
  with frame_load [OF f1 lv(3)] a show ?thesis by simp
qed

text \<open>
  Claim C1, as the code has it. With the fqdn flag on, when resolving \<open>user_ctx.host\<close>
  fails and the one retry on \<open>runas_ctx.host\<close> succeeds with the pair \<open>(l, sh)\<close> in state
  \<open>s2\<close>, the call is defined, \<open>user_ctx.host\<close> and \<open>user_ctx.shost\<close> end up as \<open>l\<close> and
  \<open>sh\<close>, holding the canonical name the name service gave for the target host name and its
  part before the first dot. The value returned is not always true. When the two host
  names differ, \<open>runas_ctx.host\<close> is resolved once more (line 133): the call returns true
  exactly when the name service answers this third query with 0 and the allocations for the
  pair succeed. When the two names are equal, the pair is duplicated (lines 139-152): the
  call returns true exactly when the one or two allocations of the copy succeed.
\<close>

theorem cb_fqdn_fallback:
  assumes ok: "hosts_ok s" and en: "fqdn_enabled sd_un"
    and r1: "resolve_host E (user_ctx_host s) (None, None) s = Some (rc1, outs1, s1)"
    and n1: "rc1 \<noteq> 0"
    and r2: "resolve_host E (runas_ctx_host s) outs1 s1 = Some (0, (l, sh), s2)"
  shows "\<exists>ok2 s' uname rname canon.
           cb_fqdn E sd_un op s = Some (ok2, s') \<and>
           user_ctx_host s' = l \<and> user_ctx_shost s' = sh \<and>
           load s (user_ctx_host s) = Some uname \<and>
           load s (runas_ctx_host s) = Some rname \<and>
           getaddrinfo E (Suc (gai_calls s)) rname = (0, canon) \<and>
           load s' l = Some canon \<and>
           load s' sh = Some (takeWhile (\<lambda>c. c \<noteq> CHR ''.'') canon) \<and>
           (ok2 \<longleftrightarrow>
              (if rname \<noteq> uname
               then (case getaddrinfo E (Suc (Suc (gai_calls s))) rname of
                       (ret3, canon3) \<Rightarrow>
                         ret3 = 0 \<and> \<not> malloc_fails E (mallocs s2) \<and>
                         (CHR ''.'' \<in> set canon3 \<longrightarrow> \<not> malloc_fails E (Suc (mallocs s2))))
               else \<not> malloc_fails E (mallocs s2) \<and>
                    (sh \<noteq> l \<longrightarrow> \<not> malloc_fails E (Suc (mallocs s2)))))"
proof -
  note f1 = resolve_host_frame [OF r1]
  from resolve_host_failed [OF r1 n1] have o1: "outs1 = (None, None)" and l1: "load s1 = load s"
    by simp_all
  have rh1: "runas_ctx_host s1 = runas_ctx_host s" using f1 by (simp add: frame_def)
  note f2 = resolve_host_frame [OF r2]
  have f: "frame s s2" using f1 f2 by (blast intro: frame_trans)
  have g2: "gai_calls s2 = Suc (Suc (gai_calls s))" using f1 f2 by simp
  from resolve_host_fresh [OF r2] have "fresh s1 s2 l" "fresh s1 s2 sh" by simp_all
  then have fr: "fresh s s2 l" "fresh s s2 sh"
    using f1 by (blast intro: fresh_mono)+
  from resolve_host_texts [OF r2] l1 f1 obtain rname canon where
    tx: "load s (runas_ctx_host s) = Some rname"
      "getaddrinfo E (Suc (gai_calls s)) rname = (0, canon)"
      "load s2 l = Some canon" "load s2 sh = Some (takeWhile (\<lambda>c. c \<noteq> CHR ''.'') canon)"
    by auto
  from ok obtain uname where un: "load s (user_ctx_host s) = Some uname"
    by (auto simp: hosts_ok_def live_def)
  have ru: "resolve_user E s = Some (True, l, sh, s2)"
    using r1 n1 r2 o1 rh1 by (simp add: resolve_user_def)
  have rem: "(load s (runas_ctx_host s) \<noteq> load s (user_ctx_host s)) = (rname \<noteq> uname)"
    using tx un by simp
  from cb_fqdn_pipeline [OF ok en ru f fr, of op, unfolded rem]
  obtain s3 ok2 l2 sh2 s4 s' where
    i3: "install_user_hosts l sh s2 = Some s3"
    and rr: "resolve_runas E (rname \<noteq> uname) s3 = Some (ok2, l2, sh2, s4)"
    and cb: "cb_fqdn E sd_un op s = Some (ok2, s')"
    and pu: "user_ctx_host s' = l" "user_ctx_shost s' = sh"
    and lu: "load s' l = load s2 l" "load s' sh = load s2 sh"
    and c3: "mallocs s3 = mallocs s2" "gai_calls s3 = gai_calls s2"
    and p3: "user_ctx_host s3 = l" "user_ctx_shost s3 = sh"
    and l3: "load s3 l = load s2 l" "load s3 sh = load s2 sh"
    by blast
  from install_keeps_runas [OF ok f i3] tx
  have r3: "runas_ctx_host s3 = runas_ctx_host s" "load s3 (runas_ctx_host s) = Some rname"
    by simp_all
  have okiff: "ok2 \<longleftrightarrow>
              (if rname \<noteq> uname
               then (case getaddrinfo E (Suc (Suc (gai_calls s))) rname of
                       (ret3, canon3) \<Rightarrow>
                         ret3 = 0 \<and> \<not> malloc_fails E (mallocs s2) \<and>
                         (CHR ''.'' \<in> set canon3 \<longrightarrow> \<not> malloc_fails E (Suc (mallocs s2))))
               else \<not> malloc_fails E (mallocs s2) \<and>
                    (sh \<noteq> l \<longrightarrow> \<not> malloc_fails E (Suc (mallocs s2))))"
  proof (cases "rname \<noteq> uname")
    case True
    with rr have "resolve_runas E True s3 = Some (ok2, l2, sh2, s4)" by simp
    from resolve_runas_remote [OF this] obtain rc outs s5 where
      r3': "resolve_host E (runas_ctx_host s3) (None, None) s3 = Some (rc, outs, s5)"
      and o: "ok2 = (rc = 0)" by blast
    from resolve_host_rc0_iff [OF r3'] r3 c3 g2 o True show ?thesis
      by auto
  next
    case False
    with rr have rr': "resolve_runas E False s3 = Some (ok2, l2, sh2, s4)" by simp
    have h3: "load s3 (user_ctx_host s3) = Some canon"
      "load s3 (user_ctx_shost s3) = Some (takeWhile (\<lambda>c. c \<noteq> CHR ''.'') canon)"
      using p3 l3 tx by simp_all
    note ex = rr' [unfolded resolve_runas_local [OF h3, of E]]
    from ex p3 c3 False show ?thesis by (auto split: if_splits)
  qed
  from cb pu un tx lu okiff show ?thesis by auto
qed

theorem cb_fqdn_fallback_witness:
  "(\<exists>s'. cb_fqdn env_steady None 0 hosts_remote = Some (True, s') \<and>
         load s' (user_ctx_host s') = Some ''target.example.com'' \<and>
         load s' (user_ctx_shost s') = Some ''target'') \<and>
   (\<exists>s'. cb_fqdn env_flaky None 0 hosts_twin = Some (True, s') \<and>
         load s' (user_ctx_host s') = Some ''target.example.com'' \<and>
         load s' (user_ctx_shost s') = Some ''target'' \<and> gai_calls s' = 2)"
proof -
  have h1: "hosts_ok hosts_remote"
    by (simp add: hosts_ok_def hosts_remote_def live_def load_def shares_storage_def
          same_storage_def)
  have h2: "fqdn_enabled None" by (simp add: fqdn_enabled_def)
  have h3: "resolve_host env_steady (user_ctx_host hosts_remote) (None, None) hosts_remote
              = Some (- 2, (None, None), hosts_remote\<lparr>gai_calls := 1\<rparr>)"
    by (simp add: resolve_host_def env_steady_def hosts_remote_def load_def)
  have h4: "resolve_host env_steady (runas_ctx_host hosts_remote) (None, None)
              (hosts_remote\<lparr>gai_calls := 1\<rparr>)
              = Some (0, (Some 2, Some 3),
                  hosts_remote\<lparr>gai_calls := 2, mallocs := 2,
                    cells := [Some ''ghost'', Some ''target'', Some ''target.example.com'',
                              Some ''target'']\<rparr>)"
    by (simp add: resolve_host_def env_steady_def hosts_remote_def load_def strdup_def
          strchr_def strndup_text_def)
  have ev: "cb_fqdn env_steady None 0 hosts_remote = Some (True,
      \<lparr>user_ctx_host = Some 2, user_ctx_shost = Some 3, runas_ctx_host = Some 4,
       runas_ctx_shost = Some 5,
       cells = [None, None, Some ''target.example.com'', Some ''target'',
                Some ''target.example.com'', Some ''target''],
       mallocs = 4, gai_calls = 3, warnings = []\<rparr>)"
    by (simp add: cb_fqdn_def resolve_user_def resolve_runas_def install_user_hosts_def
          install_runas_hosts_def resolve_host_def env_steady_def hosts_remote_def load_def
          strdup_def strchr_def strndup_text_def free_def)
  have k1: "hosts_ok hosts_twin"
    by (simp add: hosts_ok_def hosts_twin_def live_def load_def shares_storage_def
          same_storage_def)
  have k3: "resolve_host env_flaky (user_ctx_host hosts_twin) (None, None) hosts_twin
              = Some (- 3, (None, None), hosts_twin\<lparr>gai_calls := 1\<rparr>)"
    by (simp add: resolve_host_def env_flaky_def hosts_twin_def load_def)
  have k4: "resolve_host env_flaky (runas_ctx_host hosts_twin) (None, None)
              (hosts_twin\<lparr>gai_calls := 1\<rparr>)
              = Some (0, (Some 2, Some 3),
                  hosts_twin\<lparr>gai_calls := 2, mallocs := 2,
                    cells := [Some ''target'', Some ''target'', Some ''target.example.com'',
                              Some ''target'']\<rparr>)"
    by (simp add: resolve_host_def env_flaky_def hosts_twin_def load_def strdup_def
          strchr_def strndup_text_def)
  have kv: "cb_fqdn env_flaky None 0 hosts_twin = Some (True,
      \<lparr>user_ctx_host = Some 2, user_ctx_shost = Some 3, runas_ctx_host = Some 4,
       runas_ctx_shost = Some 5,
       cells = [None, None, Some ''target.example.com'', Some ''target'',
                Some ''target.example.com'', Some ''target''],
       mallocs = 4, gai_calls = 2, warnings = []\<rparr>)"
    by (simp add: cb_fqdn_def resolve_user_def resolve_runas_def install_user_hosts_def
          install_runas_hosts_def resolve_host_def dup_user_hosts_def env_flaky_def
          hosts_twin_def load_def strdup_def strchr_def strndup_text_def free_def)
  from cb_fqdn_fallback [OF h1 h2 h3 _ h4, of 0] ev
  have a: "\<exists>s'. cb_fqdn env_steady None 0 hosts_remote = Some (True, s') \<and>
         load s' (user_ctx_host s') = Some ''target.example.com'' \<and>
         load s' (user_ctx_shost s') = Some ''target''"
    by (simp add: load_def)
  from cb_fqdn_fallback [OF k1 h2 k3 _ k4, of 0] kv
  have b: "\<exists>s'. cb_fqdn env_flaky None 0 hosts_twin = Some (True, s') \<and>
         load s' (user_ctx_host s') = Some ''target.example.com'' \<and>
         load s' (user_ctx_shost s') = Some ''target'' \<and> gai_calls s' = 2"
    by (simp add: load_def)
  from a b show ?thesis by blast
qed

text \<open>
  Claim C1 as stated fails: the first query fails, the retry on the target succeeds, and
  the independent resolution of the target host that follows fails, so the call returns
  false with \<open>user_ctx\<close> already holding the target's pair.
\<close>

theorem cb_fqdn_fallback_counterexample:
  "hosts_ok hosts_remote \<and>
   resolve_host env_flaky (user_ctx_host hosts_remote) (None, None) hosts_remote
     = Some (- 3, (None, None), hosts_remote\<lparr>gai_calls := 1\<rparr>) \<and>
   resolve_host env_flaky (runas_ctx_host hosts_remote) (None, None)
       (hosts_remote\<lparr>gai_calls := 1\<rparr>)
     = Some (0, (Some 2, Some 3),
         hosts_remote\<lparr>gai_calls := 2, mallocs := 2,
           cells := [Some ''ghost'', Some ''target'', Some ''target.example.com'',
                     Some ''target'']\<rparr>) \<and>
   cb_fqdn env_flaky None 0 hosts_remote = Some (False,
      \<lparr>user_ctx_host = Some 2, user_ctx_shost = Some 3, runas_ctx_host = Some 1,
       runas_ctx_shost = Some 1,
       cells = [None, Some ''target'', Some ''target.example.com'', Some ''target''],
       mallocs = 2, gai_calls = 3,
       warnings = [Gai_log_warning (- 3) ''target'']\<rparr>)"
  by (simp add: cb_fqdn_def resolve_user_def resolve_runas_def install_user_hosts_def
        install_runas_hosts_def resolve_host_def env_flaky_def hosts_remote_def load_def
        strdup_def strchr_def strndup_text_def free_def hosts_ok_def live_def
        shares_storage_def same_storage_def)

lemmas eval_defs = cb_fqdn_def resolve_user_def resolve_runas_def install_user_hosts_def
        install_runas_hosts_def resolve_host_def dup_user_hosts_def load_def
        strdup_def strchr_def strndup_text_def free_def hosts_ok_def live_def
        shares_storage_def same_storage_def fqdn_enabled_def

lemma load_cells: "cells s' = cells s \<Longrightarrow> load s' = load s"
  by (rule ext) (simp add: load_def split: option.splits)

text \<open>
  Claim C4. With the fqdn flag on, when resolving \<open>user_ctx.host\<close> fails and the one retry on
  \<open>runas_ctx.host\<close> fails too, the call returns false, the four host pointers are what they
  were, every pointer reads the same string as before, and the one diagnostic written names
  the invoking host.
\<close>

theorem cb_fqdn_both_fail:
  assumes en: "fqdn_enabled sd_un"
    and r1: "resolve_host E (user_ctx_host s) (None, None) s = Some (rc1, outs1, s1)"
    and n1: "rc1 \<noteq> 0"
    and r2: "resolve_host E (runas_ctx_host s) outs1 s1 = Some (rc2, outs2, s2)"
    and n2: "rc2 \<noteq> 0"
  shows "\<exists>s' uname. cb_fqdn E sd_un op s = Some (False, s') \<and>
           user_ctx_host s' = user_ctx_host s \<and> user_ctx_shost s' = user_ctx_shost s \<and>
           runas_ctx_host s' = runas_ctx_host s \<and> runas_ctx_shost s' = runas_ctx_shost s \<and>
           load s' = load s \<and>
           load s (user_ctx_host s) = Some uname \<and>
           warnings s' = warnings s @ [Gai_log_warning rc2 uname]"
proof -
  note f1 = resolve_host_frame [OF r1] and f2 = resolve_host_frame [OF r2]
  from resolve_host_failed [OF r1 n1] have o1: "outs1 = (None, None)" and l1: "load s1 = load s"
    by simp_all
  from resolve_host_failed [OF r2 n2] have o2: "outs2 = outs1" and l2: "load s2 = load s1"
    by simp_all
  from resolve_host_Some [OF r1] obtain uname where un: "load s (user_ctx_host s) = Some uname"
    by auto
  from resolve_host_Some [OF r2] l1 obtain rname where rn: "load s (runas_ctx_host s) = Some rname"
    by auto
  have p: "user_ctx_host s2 = user_ctx_host s" "user_ctx_shost s2 = user_ctx_shost s"
    "runas_ctx_host s2 = runas_ctx_host s" "runas_ctx_shost s2 = runas_ctx_shost s"
    "runas_ctx_host s1 = runas_ctx_host s" "warnings s2 = warnings s"
    using f1 f2 by (simp_all add: frame_def)
  let ?s' = "s2\<lparr>warnings := warnings s2 @ [Gai_log_warning rc2 uname]\<rparr>"
  have ru: "resolve_user E s = Some (False, None, None, ?s')"
    using r1 n1 r2 n2 o1 o2 p un l1 l2 by (simp add: resolve_user_def)
  have "cb_fqdn E sd_un op s = Some (False, ?s')"
    using en un rn ru by (auto simp: cb_fqdn_def fqdn_enabled_def split: option.splits)
  moreover have "load ?s' = load s2"
    by (rule load_cells) simp
  then have "load ?s' = load s"
    using l1 l2 by simp
  ultimately show ?thesis using p un by simp
qed

theorem cb_fqdn_both_fail_witness:
  "\<exists>s'. cb_fqdn env_steady None 0 hosts_lost = Some (False, s') \<and>
        user_ctx_host s' = Some 0 \<and> user_ctx_shost s' = Some 0 \<and>
        runas_ctx_host s' = Some 1 \<and> runas_ctx_shost s' = Some 2 \<and>
        load s' = load hosts_lost \<and>
        warnings s' = [Gai_log_warning (- 2) ''ghost'']"
proof -
  have h1: "fqdn_enabled None" by (simp add: fqdn_enabled_def)
  have h2: "resolve_host env_steady (user_ctx_host hosts_lost) (None, None) hosts_lost
              = Some (- 2, (None, None), hosts_lost\<lparr>gai_calls := 1\<rparr>)"
    by (simp add: resolve_host_def env_steady_def hosts_lost_def load_def)
  have h3: "resolve_host env_steady (runas_ctx_host hosts_lost) (None, None)
              (hosts_lost\<lparr>gai_calls := 1\<rparr>)
              = Some (- 2, (None, None), hosts_lost\<lparr>gai_calls := 2\<rparr>)"
    by (simp add: resolve_host_def env_steady_def hosts_lost_def load_def)
  from cb_fqdn_both_fail [OF h1 h2 _ h3, of 0] show ?thesis
    by (auto simp: hosts_lost_def load_def)
qed

text \<open>
  Claim C3, as the code has it. With the fqdn flag on, equal host names in the two contexts
  and a first resolution that succeeds, the name service is asked exactly once. The call
  returns true exactly when the duplicating allocations succeed; then \<open>runas_ctx\<close> holds
  freshly allocated copies of the texts of \<open>user_ctx\<close>, its \<open>shost\<close> aliasing its \<open>host\<close>
  exactly when that is so in \<open>user_ctx\<close>, and no storage is shared between the contexts.
  When an allocation fails the call returns false and \<open>runas_ctx\<close> keeps its pointers.
\<close>

theorem cb_fqdn_same_host:
  assumes ok: "hosts_ok s" and en: "fqdn_enabled sd_un"
    and same: "load s (runas_ctx_host s) = load s (user_ctx_host s)"
    and r1: "resolve_host E (user_ctx_host s) (None, None) s = Some (0, (l, sh), s1)"
  shows "\<exists>ok2 s'. cb_fqdn E sd_un op s = Some (ok2, s') \<and>
           gai_calls s' = Suc (gai_calls s) \<and>
           user_ctx_host s' = l \<and> user_ctx_shost s' = sh \<and>
           (ok2 \<longleftrightarrow> \<not> malloc_fails E (mallocs s1) \<and>
                     (sh \<noteq> l \<longrightarrow> \<not> malloc_fails E (Suc (mallocs s1)))) \<and>
           (ok2 \<longrightarrow>
              fresh s1 s' (runas_ctx_host s') \<and> fresh s1 s' (runas_ctx_shost s') \<and>
              load s' (runas_ctx_host s') = load s' (user_ctx_host s') \<and>
              load s' (runas_ctx_shost s') = load s' (user_ctx_shost s') \<and>
              (runas_ctx_shost s' = runas_ctx_host s' \<longleftrightarrow> user_ctx_shost s' = user_ctx_host s') \<and>
              \<not> shares_storage s') \<and>
           (\<not> ok2 \<longrightarrow> runas_ctx_host s' = runas_ctx_host s \<and>
                      runas_ctx_shost s' = runas_ctx_shost s)"
proof -
  note f1 = resolve_host_frame [OF r1]
  from resolve_host_fresh [OF r1] have fr: "fresh s s1 l" "fresh s s1 sh" by simp_all
  have ru: "resolve_user E s = Some (True, l, sh, s1)"
    using r1 by (simp add: resolve_user_def)
  from f1 have f: "frame s s1" by simp
  have rem: "(load s (runas_ctx_host s) \<noteq> load s (user_ctx_host s)) = False"
    using same by simp
  from cb_fqdn_pipeline [OF ok en ru f fr, of op, unfolded rem]
  obtain s2 ok2 l2 sh2 s3 s' where
    rr: "resolve_runas E False s2 = Some (ok2, l2, sh2, s3)"
    and cb: "cb_fqdn E sd_un op s = Some (ok2, s')" and hok: "hosts_ok s'"
    and pu: "user_ctx_host s' = l" "user_ctx_shost s' = sh"
    and lu: "load s' l = load s1 l" "load s' sh = load s1 sh"
    and c2: "mallocs s2 = mallocs s1" "gai_calls s2 = gai_calls s1"
    and g3: "gai_calls s' = gai_calls s3"
    and p2: "user_ctx_host s2 = l" "user_ctx_shost s2 = sh"
    and l2: "load s2 l = load s1 l" "load s2 sh = load s1 sh"
    and yes: "ok2 \<longrightarrow> runas_ctx_host s' = l2 \<and> runas_ctx_shost s' = sh2 \<and>
                   load s' l2 = load s3 l2 \<and> load s' sh2 = load s3 sh2 \<and>
                   fresh s1 s' l2 \<and> fresh s1 s' sh2"
    and no: "\<not> ok2 \<longrightarrow> runas_ctx_host s' = runas_ctx_host s \<and>
                     runas_ctx_shost s' = runas_ctx_shost s"
    by blast
  from fr obtain ht st where tx: "load s1 l = Some ht" "load s1 sh = Some st"
    by (auto simp: live_def dest!: fresh_live)
  have h2: "load s2 (user_ctx_host s2) = Some ht" "load s2 (user_ctx_shost s2) = Some st"
    using p2 l2 tx by simp_all
  note ex = rr [unfolded resolve_runas_local [OF h2, of E]]
  have okiff: "ok2 \<longleftrightarrow> \<not> malloc_fails E (mallocs s1) \<and>
                     (sh \<noteq> l \<longrightarrow> \<not> malloc_fails E (Suc (mallocs s1)))"
    using ex p2 c2 by (auto split: if_splits)
  have g: "gai_calls s' = Suc (gai_calls s)"
    using ex g3 c2 f1 by (auto split: if_splits)
  have texts: "ok2 \<Longrightarrow> load s3 l2 = Some ht \<and> load s3 sh2 = Some st \<and> (sh2 = l2 \<longleftrightarrow> sh = l)"
    using ex p2 h2 by (auto simp: load_def nth_append split: if_splits)
  have "\<not> shares_storage s'" using hok by (simp add: hosts_ok_def)
  with cb g pu okiff yes no texts lu tx show ?thesis
    by auto
qed

theorem cb_fqdn_same_host_witness:
  "\<exists>s'. cb_fqdn env_steady None 0 hosts_same = Some (True, s') \<and>
        gai_calls s' = 1 \<and>
        load s' (runas_ctx_host s') = Some ''www.example.com'' \<and>
        load s' (runas_ctx_shost s') = Some ''www'' \<and>
        runas_ctx_host s' \<noteq> user_ctx_host s' \<and> runas_ctx_shost s' \<noteq> user_ctx_shost s'"
proof -
  have h1: "hosts_ok hosts_same"
    by (simp add: hosts_ok_def hosts_same_def live_def load_def shares_storage_def
          same_storage_def)
  have h2: "fqdn_enabled None" by (simp add: fqdn_enabled_def)
  have h3: "load hosts_same (runas_ctx_host hosts_same) = load hosts_same (user_ctx_host hosts_same)"
    by (simp add: hosts_same_def load_def)
  have h4: "resolve_host env_steady (user_ctx_host hosts_same) (None, None) hosts_same
              = Some (0, (Some 2, Some 3),
                  hosts_same\<lparr>gai_calls := 1, mallocs := 2,
                    cells := [Some ''www'', Some ''www'', Some ''www.example.com'',
                              Some ''www'']\<rparr>)"
    by (simp add: resolve_host_def env_steady_def hosts_same_def load_def strdup_def
          strchr_def strndup_text_def)
  have ev: "cb_fqdn env_steady None 0 hosts_same = Some (True,
      \<lparr>user_ctx_host = Some 2, user_ctx_shost = Some 3, runas_ctx_host = Some 4,
       runas_ctx_shost = Some 5,
       cells = [None, None, Some ''www.example.com'', Some ''www'',
                Some ''www.example.com'', Some ''www''],
       mallocs = 4, gai_calls = 1, warnings = []\<rparr>)"
    by (simp add: eval_defs env_steady_def hosts_same_def)
  from cb_fqdn_same_host [OF h1 h2 h3 h4, of 0] ev show ?thesis
    by (simp add: load_def)
qed

text \<open>
  Claim C3 as stated fails when memory runs out: the first resolution succeeds, the
  \<open>strdup\<close> for \<open>runas_ctx\<close> fails, and the target context receives nothing.
\<close>

theorem cb_fqdn_same_host_counterexample:
  "hosts_ok hosts_same \<and>
   load hosts_same (runas_ctx_host hosts_same) = load hosts_same (user_ctx_host hosts_same) \<and>
   resolve_host env_oom (user_ctx_host hosts_same) (None, None) hosts_same
     = Some (0, (Some 2, Some 3),
         hosts_same\<lparr>gai_calls := 1, mallocs := 2,
           cells := [Some ''www'', Some ''www'', Some ''www.example.com'', Some ''www'']\<rparr>) \<and>
   cb_fqdn env_oom None 0 hosts_same = Some (False,
      \<lparr>user_ctx_host = Some 2, user_ctx_shost = Some 3, runas_ctx_host = Some 1,
       runas_ctx_shost = Some 1,
       cells = [None, Some ''www'', Some ''www.example.com'', Some ''www''],
       mallocs = 3, gai_calls = 1,
       warnings = [Sudo_warnx ''unable to allocate memory'']\<rparr>)"
  by (simp add: eval_defs env_oom_def hosts_same_def)

lemma get_hostname_Some:
  assumes "get_hostname E s = Some (Inr s')"
  shows "\<exists>txt. runas_ctx_host s' = user_ctx_host s' \<and> runas_ctx_shost s' = user_ctx_shost s' \<and>
           user_ctx_host s' = Some (length (cells s)) \<and>
           ((CHR ''.'' \<notin> set txt \<and> user_ctx_shost s' = Some (length (cells s)) \<and>
             cells s' = cells s @ [Some txt]) \<or>
            (CHR ''.'' \<in> set txt \<and> user_ctx_shost s' = Some (Suc (length (cells s))) \<and>
             cells s' = cells s @ [Some txt, Some (takeWhile (\<lambda>c. c \<noteq> CHR ''.'') txt)]))"
  using assms
  unfolding get_hostname_def sudo_gethostname_def strdup_def store_def load_def Let_def
  by (auto split: option.splits prod.splits if_splits sum.splits
      simp: strchr_None nth_append strchr_def takeWhile_eq_take [symmetric])

lemma get_hostname_defined: "get_hostname E s \<noteq> None"
  unfolding get_hostname_def sudo_gethostname_def strdup_def store_def load_def Let_def
  by (auto split: option.splits prod.splits if_splits sum.splits simp: nth_append)

lemma get_hostname_returns:
  assumes "\<not> malloc_fails E (mallocs s)"
    and "\<forall>h. sys_hostname E = Some h \<and> CHR ''.'' \<in> set h \<longrightarrow> \<not> malloc_fails E (Suc (mallocs s))"
  shows "\<exists>s''. get_hostname E s = Some (Inr s'') \<and>
           load s'' (user_ctx_host s'') =
             Some (case sys_hostname E of None \<Rightarrow> ''localhost'' | Some h \<Rightarrow> h)"
  using assms
  unfolding get_hostname_def sudo_gethostname_def strdup_def store_def load_def Let_def
  by (auto split: option.splits prod.splits if_splits sum.splits
      simp: strchr_None nth_append strchr_def)

text \<open>
  Claim C2. Whenever \<open>resolve_host\<close> reports success, the long name is a fresh copy of the
  canonical name; with a dot in it the short name is another fresh allocation holding the
  text before the first dot, without a dot the short pointer is the long pointer. The same
  holds for \<open>user_ctx.host\<close> and \<open>user_ctx.shost\<close> whenever \<open>get_hostname\<close> returns. Both do
  return so: \<open>resolve_host\<close> reports success whenever the name service answers 0 and the one
  allocation (two with a dot in the canonical name) succeeds, and \<open>get_hostname\<close> returns,
  with the system's host name (or \<open>localhost\<close> when there is none) as the long name,
  whenever its first allocation succeeds and, for a host name with a dot, the second too.
\<close>

theorem short_name_rule:
  "(resolve_host E p outs s = Some (0, (l, sh), s') \<longrightarrow>
      (\<exists>name canon. load s p = Some name \<and> getaddrinfo E (gai_calls s) name = (0, canon) \<and>
         load s' l = Some canon \<and> fresh s s' l \<and>
         (if CHR ''.'' \<in> set canon
          then sh \<noteq> l \<and> fresh s s' sh \<and>
               load s' sh = Some (takeWhile (\<lambda>c. c \<noteq> CHR ''.'') canon)
          else sh = l))) \<and>
   (get_hostname E s = Some (Inr s'') \<longrightarrow>
      (\<exists>txt. load s'' (user_ctx_host s'') = Some txt \<and> fresh s s'' (user_ctx_host s'') \<and>
         (if CHR ''.'' \<in> set txt
          then user_ctx_shost s'' \<noteq> user_ctx_host s'' \<and> fresh s s'' (user_ctx_shost s'') \<and>
               load s'' (user_ctx_shost s'') = Some (takeWhile (\<lambda>c. c \<noteq> CHR ''.'') txt)
          else user_ctx_shost s'' = user_ctx_host s''))) \<and>
   (load s p = Some name \<and> getaddrinfo E (gai_calls s) name = (0, canon) \<and>
    \<not> malloc_fails E (mallocs s) \<and>
    (CHR ''.'' \<in> set canon \<longrightarrow> \<not> malloc_fails E (Suc (mallocs s))) \<longrightarrow>
      (\<exists>l1 sh1 s1. resolve_host E p outs s = Some (0, (l1, sh1), s1) \<and>
         load s1 l1 = Some canon \<and>
         load s1 sh1 = Some (takeWhile (\<lambda>c. c \<noteq> CHR ''.'') canon) \<and>
         (sh1 = l1 \<longleftrightarrow> CHR ''.'' \<notin> set canon))) \<and>
   (\<not> malloc_fails E (mallocs s) \<and>
    (\<forall>h. sys_hostname E = Some h \<and> CHR ''.'' \<in> set h \<longrightarrow> \<not> malloc_fails E (Suc (mallocs s)))
    \<longrightarrow>
      (\<exists>s2 txt. get_hostname E s = Some (Inr s2) \<and>
         txt = (case sys_hostname E of None \<Rightarrow> ''localhost'' | Some h \<Rightarrow> h) \<and>
         load s2 (user_ctx_host s2) = Some txt \<and>
         load s2 (user_ctx_shost s2) = Some (takeWhile (\<lambda>c. c \<noteq> CHR ''.'') txt) \<and>
         (user_ctx_shost s2 = user_ctx_host s2 \<longleftrightarrow> CHR ''.'' \<notin> set txt)))"
proof (intro conjI impI)
  assume r: "resolve_host E p outs s = Some (0, (l, sh), s')"
  from resolve_host_texts [OF r] resolve_host_fresh [OF r]
  show "\<exists>name canon. load s p = Some name \<and> getaddrinfo E (gai_calls s) name = (0, canon) \<and>
         load s' l = Some canon \<and> fresh s s' l \<and>
         (if CHR ''.'' \<in> set canon
          then sh \<noteq> l \<and> fresh s s' sh \<and>
               load s' sh = Some (takeWhile (\<lambda>c. c \<noteq> CHR ''.'') canon)
          else sh = l)"
    by (auto split: if_splits)
next
  assume g: "get_hostname E s = Some (Inr s'')"
  from get_hostname_Some [OF g]
  show "\<exists>txt. load s'' (user_ctx_host s'') = Some txt \<and> fresh s s'' (user_ctx_host s'') \<and>
         (if CHR ''.'' \<in> set txt
          then user_ctx_shost s'' \<noteq> user_ctx_host s'' \<and> fresh s s'' (user_ctx_shost s'') \<and>
               load s'' (user_ctx_shost s'') = Some (takeWhile (\<lambda>c. c \<noteq> CHR ''.'') txt)
          else user_ctx_shost s'' = user_ctx_host s'')"
    by (auto simp: load_def fresh_def live_def nth_append)
next
  assume a: "load s p = Some name \<and> getaddrinfo E (gai_calls s) name = (0, canon) \<and>
    \<not> malloc_fails E (mallocs s) \<and>
    (CHR ''.'' \<in> set canon \<longrightarrow> \<not> malloc_fails E (Suc (mallocs s)))"
  then obtain l1 sh1 s1 where r: "resolve_host E p outs s = Some (0, (l1, sh1), s1)"
    using resolve_host_succeeds [of s p name E canon outs] by blast
  from resolve_host_texts [OF r] a
  have "load s1 l1 = Some canon \<and>
         load s1 sh1 = Some (takeWhile (\<lambda>c. c \<noteq> CHR ''.'') canon) \<and>
         (sh1 = l1 \<longleftrightarrow> CHR ''.'' \<notin> set canon)"
    by (auto split: if_splits)
  with r show "\<exists>l1 sh1 s1. resolve_host E p outs s = Some (0, (l1, sh1), s1) \<and>
         load s1 l1 = Some canon \<and>
         load s1 sh1 = Some (takeWhile (\<lambda>c. c \<noteq> CHR ''.'') canon) \<and>
         (sh1 = l1 \<longleftrightarrow> CHR ''.'' \<notin> set canon)"
    by blast
next
  assume a: "\<not> malloc_fails E (mallocs s) \<and>
    (\<forall>h. sys_hostname E = Some h \<and> CHR ''.'' \<in> set h \<longrightarrow> \<not> malloc_fails E (Suc (mallocs s)))"
  let ?txt = "case sys_hostname E of None \<Rightarrow> ''localhost'' | Some h \<Rightarrow> h"
  from a get_hostname_returns [of E s] obtain s2 where
    g: "get_hostname E s = Some (Inr s2)" and t: "load s2 (user_ctx_host s2) = Some ?txt"
    by blast
  from get_hostname_Some [OF g] t
  have "load s2 (user_ctx_shost s2) = Some (takeWhile (\<lambda>c. c \<noteq> CHR ''.'') ?txt) \<and>
         (user_ctx_shost s2 = user_ctx_host s2 \<longleftrightarrow> CHR ''.'' \<notin> set ?txt)"
    by (auto simp: load_def nth_append takeWhile_absent)
  with g t show "\<exists>s2 txt. get_hostname E s = Some (Inr s2) \<and>
         txt = (case sys_hostname E of None \<Rightarrow> ''localhost'' | Some h \<Rightarrow> h) \<and>
         load s2 (user_ctx_host s2) = Some txt \<and>
         load s2 (user_ctx_shost s2) = Some (takeWhile (\<lambda>c. c \<noteq> CHR ''.'') txt) \<and>
         (user_ctx_shost s2 = user_ctx_host s2 \<longleftrightarrow> CHR ''.'' \<notin> set txt)"
    by blast
qed

theorem short_name_rule_witness:
  "resolve_host env_steady (Some 1) (None, None) hosts_remote
     = Some (0, (Some 2, Some 3),
         hosts_remote\<lparr>gai_calls := 1, mallocs := 2,
           cells := [Some ''ghost'', Some ''target'', Some ''target.example.com'',
                     Some ''target'']\<rparr>) \<and>
   (\<exists>s''. get_hostname env_steady hosts_blank = Some (Inr s'') \<and>
      load s'' (user_ctx_host s'') = Some ''build.example.com'' \<and>
      load s'' (user_ctx_shost s'') = Some ''build'' \<and>
      user_ctx_shost s'' \<noteq> user_ctx_host s'') \<and>
   (\<exists>l1 s1. resolve_host env_plain (Some 1) (None, None) hosts_remote = Some (0, (l1, l1), s1) \<and>
      load s1 l1 = Some ''target'') \<and>
   (\<exists>s2. get_hostname env_plain hosts_blank = Some (Inr s2) \<and>
      load s2 (user_ctx_host s2) = Some ''build'' \<and>
      user_ctx_shost s2 = user_ctx_host s2) \<and>
   (\<exists>s2. get_hostname env_flaky hosts_blank = Some (Inr s2) \<and>
      load s2 (user_ctx_host s2) = Some ''localhost'' \<and>
      user_ctx_shost s2 = user_ctx_host s2)"
proof -
  have h1: "resolve_host env_steady (Some 1) (None, None) hosts_remote
              = Some (0, (Some 2, Some 3),
                  hosts_remote\<lparr>gai_calls := 1, mallocs := 2,
                    cells := [Some ''ghost'', Some ''target'', Some ''target.example.com'',
                              Some ''target'']\<rparr>)"
    by (simp add: resolve_host_def env_steady_def hosts_remote_def load_def strdup_def
          strchr_def strndup_text_def)
  have h2: "get_hostname env_steady hosts_blank = Some (Inr
      \<lparr>user_ctx_host = Some 0, user_ctx_shost = Some 1, runas_ctx_host = Some 0,
       runas_ctx_shost = Some 1, cells = [Some ''build.example.com'', Some ''build''],
       mallocs = 2, gai_calls = 0, warnings = []\<rparr>)"
    by (simp add: get_hostname_def sudo_gethostname_def env_steady_def hosts_blank_def
          load_def strdup_def strchr_def store_def)
  from short_name_rule [of env_steady "Some 1" "(None, None)" hosts_remote "Some 2" "Some 3" _
      hosts_blank] h1 h2
  have a: "\<exists>s''. get_hostname env_steady hosts_blank = Some (Inr s'') \<and>
      load s'' (user_ctx_host s'') = Some ''build.example.com'' \<and>
      load s'' (user_ctx_shost s'') = Some ''build'' \<and>
      user_ctx_shost s'' \<noteq> user_ctx_host s''"
    by (simp add: load_def)
  have b: "\<exists>l1 s1. resolve_host env_plain (Some 1) (None, None) hosts_remote
              = Some (0, (l1, l1), s1) \<and> load s1 l1 = Some ''target''"
    using short_name_rule [of env_plain "Some 1" "(None, None)" hosts_remote None None
        hosts_remote hosts_remote "''target''" "''target''",
        THEN conjunct2, THEN conjunct2, THEN conjunct1]
    by (auto simp: env_plain_def hosts_remote_def load_def)
  have c: "\<exists>s2. get_hostname env_plain hosts_blank = Some (Inr s2) \<and>
      load s2 (user_ctx_host s2) = Some ''build'' \<and> user_ctx_shost s2 = user_ctx_host s2"
    using short_name_rule [of env_plain None "(None, None)" hosts_blank None None
        hosts_blank hosts_blank "[]" "[]",
        THEN conjunct2, THEN conjunct2, THEN conjunct2]
    by (auto simp: env_plain_def hosts_blank_def)
  have d: "\<exists>s2. get_hostname env_flaky hosts_blank = Some (Inr s2) \<and>
      load s2 (user_ctx_host s2) = Some ''localhost'' \<and> user_ctx_shost s2 = user_ctx_host s2"
    using short_name_rule [of env_flaky None "(None, None)" hosts_blank None None
        hosts_blank hosts_blank "[]" "[]",
        THEN conjunct2, THEN conjunct2, THEN conjunct2]
    by (auto simp: env_flaky_def hosts_blank_def)
  from h1 a b c d show ?thesis by blast
qed

text \<open>
  Claim C5, as the code has it. \<open>cb_fqdn\<close> keeps the ownership rule: started with four live
  host strings and no storage shared between the contexts, it is defined and ends in such
  a state again, whatever it returns. \<open>get_hostname\<close> of stubs.c does not: it stores the
  pointers of \<open>user_ctx\<close> in \<open>runas_ctx\<close>, so the two contexts share both strings.
\<close>

theorem host_storage_ownership:
  "(hosts_ok s \<longrightarrow> (\<exists>ok s'. cb_fqdn E sd_un op s = Some (ok, s') \<and> hosts_ok s')) \<and>
   (get_hostname E t = Some (Inr t') \<longrightarrow>
      runas_ctx_host t' = user_ctx_host t' \<and> runas_ctx_shost t' = user_ctx_shost t' \<and>
      shares_storage t')"
proof (intro conjI impI)
  assume "hosts_ok s"
  then show "\<exists>ok s'. cb_fqdn E sd_un op s = Some (ok, s') \<and> hosts_ok s'"
    by (rule cb_fqdn_invariant)
next
  assume g: "get_hostname E t = Some (Inr t')"
  from get_hostname_Some [OF g]
  show "runas_ctx_host t' = user_ctx_host t'" "runas_ctx_shost t' = user_ctx_shost t'"
    "shares_storage t'"
    by (auto simp: shares_storage_def same_storage_def)
qed

theorem host_storage_ownership_witness:
  "hosts_ok hosts_same \<and>
   (\<exists>s'. cb_fqdn env_steady None 0 hosts_same = Some (True, s') \<and> \<not> shares_storage s') \<and>
   (\<exists>t'. get_hostname env_steady hosts_blank = Some (Inr t') \<and> shares_storage t')"
proof -
  have h1: "hosts_ok hosts_same"
    by (simp add: hosts_ok_def hosts_same_def live_def load_def shares_storage_def
          same_storage_def)
  have ev: "cb_fqdn env_steady None 0 hosts_same = Some (True,
      \<lparr>user_ctx_host = Some 2, user_ctx_shost = Some 3, runas_ctx_host = Some 4,
       runas_ctx_shost = Some 5,
       cells = [None, None, Some ''www.example.com'', Some ''www'',
                Some ''www.example.com'', Some ''www''],
       mallocs = 4, gai_calls = 1, warnings = []\<rparr>)"
    by (simp add: eval_defs env_steady_def hosts_same_def)
  have h2: "get_hostname env_steady hosts_blank = Some (Inr
      \<lparr>user_ctx_host = Some 0, user_ctx_shost = Some 1, runas_ctx_host = Some 0,
       runas_ctx_shost = Some 1, cells = [Some ''build.example.com'', Some ''build''],
       mallocs = 2, gai_calls = 0, warnings = []\<rparr>)"
    by (simp add: get_hostname_def sudo_gethostname_def env_steady_def hosts_blank_def
          load_def strdup_def strchr_def store_def)
  from host_storage_ownership [of hosts_same env_steady None 0 hosts_blank] h1 ev h2
  show ?thesis
    by (auto simp: hosts_ok_def)
qed

text \<open>
  Claim C5 as stated fails for \<open>get_hostname\<close>: after it both contexts point at the same
  two cells.
\<close>

theorem host_storage_ownership_counterexample:
  "get_hostname env_steady hosts_blank = Some (Inr
      \<lparr>user_ctx_host = Some 0, user_ctx_shost = Some 1, runas_ctx_host = Some 0,
       runas_ctx_shost = Some 1, cells = [Some ''build.example.com'', Some ''build''],
       mallocs = 2, gai_calls = 0, warnings = []\<rparr>) \<and>
   shares_storage
      \<lparr>user_ctx_host = Some 0, user_ctx_shost = Some 1, runas_ctx_host = Some 0,
       runas_ctx_shost = Some 1, cells = [Some ''build.example.com'', Some ''build''],
       mallocs = 2, gai_calls = 0, warnings = []\<rparr>"
  by (simp add: get_hostname_def sudo_gethostname_def env_steady_def hosts_blank_def
        load_def strdup_def strchr_def store_def shares_storage_def same_storage_def)

section \<open>Properties of the logging handlers and the registry\<close>

lemmas setter_defs = eventlog_set_type_def eventlog_set_logpath_def eventlog_set_format_def
  eventlog_set_syslog_acceptpri_def eventlog_set_syslog_rejectpri_def
  eventlog_set_syslog_alertpri_def eventlog_set_syslog_maxlen_def eventlog_set_file_maxlen_def
  eventlog_set_time_fmt_def eventlog_set_omit_hostname_def eventlog_set_mailerpath_def
  eventlog_set_mailerflags_def eventlog_set_mailfrom_def eventlog_set_mailto_def
  eventlog_set_mailsub_def

lemma both_bits:
  "ISSET (SET EVLOG_SYSLOG EVLOG_FILE) EVLOG_FILE"
  "ISSET (SET EVLOG_SYSLOG EVLOG_FILE) EVLOG_SYSLOG"
  "ISSET (SET EVLOG_FILE EVLOG_SYSLOG) EVLOG_FILE"
  "ISSET (SET EVLOG_FILE EVLOG_SYSLOG) EVLOG_SYSLOG"
  by (simp_all add: ISSET_def SET_def EVLOG_FILE_def EVLOG_SYSLOG_def)

text \<open>
  Claim C6. \<open>cb_logfile\<close> with a non-NULL path while \<open>def_syslog\<close> is set, and \<open>cb_syslog\<close>
  with a non-NULL value while \<open>def_logfile\<close> is set, both return true and leave a destination
  mask with the \<open>EVLOG_FILE\<close> and the \<open>EVLOG_SYSLOG\<close> bit. Applied one after the other
  through the settings layer, in either order, the mask ends with both bits.
\<close>

theorem log_destinations_add_up:
  "(def_syslog s \<noteq> 0 \<and> str v \<noteq> None \<longrightarrow>
      fst (cb_logfile v op s) \<and> both_destinations (snd (cb_logfile v op s))) \<and>
   (def_logfile s \<noteq> None \<and> str v \<noteq> None \<longrightarrow>
      fst (cb_syslog v op s) \<and> both_destinations (snd (cb_syslog v op s))) \<and>
   (ival v \<noteq> 0 \<and> str v \<noteq> None \<and> str w \<noteq> None \<longrightarrow>
      both_destinations (snd (apply_logfile w op' (snd (apply_syslog v op s)))) \<and>
      both_destinations (snd (apply_syslog v op (snd (apply_logfile w op' s)))))"
  by (simp add: cb_logfile_def cb_syslog_def apply_logfile_def apply_syslog_def
        both_destinations_def eventlog_set_type_def eventlog_set_logpath_def both_bits)

theorem log_destinations_add_up_witness:
  "def_syslog sudoers_example \<noteq> 0 \<and>
   both_destinations (snd (cb_logfile (str_value ''/var/log/sudo.log'') 1 sudoers_example)) \<and>
   evl_type (evl (snd (cb_logfile (str_value ''/var/log/sudo.log'') 1 sudoers_example))) = 3 \<and>
   both_destinations
     (snd (cb_syslog (str_value ''authpriv'') 1
        (sudoers_example\<lparr>def_logfile := Some ''/var/log/sudo.log''\<rparr>)))"
proof -
  have h1: "def_syslog sudoers_example \<noteq> 0" by (simp add: sudoers_example_def)
  have h2: "str (str_value ''/var/log/sudo.log'') \<noteq> None" by (simp add: str_value_def)
  have h3: "evl_type (evl (snd (cb_logfile (str_value ''/var/log/sudo.log'') 1 sudoers_example))) = 3"
    by (simp add: cb_logfile_def sudoers_example_def str_value_def setter_defs SET_def
          EVLOG_FILE_def EVLOG_SYSLOG_def)
  from log_destinations_add_up [of sudoers_example "str_value ''/var/log/sudo.log''" 1]
    log_destinations_add_up [of "sudoers_example\<lparr>def_logfile := Some ''/var/log/sudo.log''\<rparr>"
      "str_value ''authpriv''" 1]
    h1 h2 h3
  show ?thesis by (simp add: str_value_def)
qed

lemma find_uid: "find (\<lambda>p. pw_uid p = u) db = Some p \<Longrightarrow> pw_uid p = u"
  by (induction db) (auto split: if_splits)

lemma find_name: "find (\<lambda>p. pw_name p = n) db = Some p \<Longrightarrow> pw_name p = n"
  by (induction db) (auto split: if_splits)

text \<open>
  Claim C7. A value \<open>#n\<close> whose \<open>n\<close> parses to a uid with a record sets the owner to that uid
  and the record's gid after one lookup by uid and none by name. When the value is not of
  that form, or the parse fails, or the uid has no record, the whole value is looked up as
  a name: a record found sets the owner from it; none found returns false, leaves the owner
  as it was and logs the unknown-user diagnostic with the source location.
\<close>

theorem timestampowner_resolution:
  "(str v = Some (CHR ''#'' # n) \<and> sudo_strtoid U n = Some u \<and> sudo_getpwuid U u = Some p \<longrightarrow>
      pw_uid p = u \<and>
      cb_timestampowner U file line column v op s =
        Some (True, s\<lparr>pw_queries := pw_queries s @ [Getpwuid u],
                      timestamp_uid := u, timestamp_gid := pw_gid p\<rparr>)) \<and>
   (str v = Some user \<and>
    (\<forall>n. user = CHR ''#'' # n \<longrightarrow>
       (case sudo_strtoid U n of None \<Rightarrow> True | Some u \<Rightarrow> sudo_getpwuid U u = None)) \<longrightarrow>
      (\<exists>s1. numeric_lookup U user s = (None, s1) \<and>
         timestamp_uid s1 = timestamp_uid s \<and> timestamp_gid s1 = timestamp_gid s \<and>
         audit_log s1 = audit_log s \<and>
         (case sudo_getpwnam U user of
            Some p \<Rightarrow>
              pw_name p = user \<and>
              cb_timestampowner U file line column v op s =
                Some (True, s1\<lparr>pw_queries := pw_queries s1 @ [Getpwnam user],
                               timestamp_uid := pw_uid p, timestamp_gid := pw_gid p\<rparr>)
          | None \<Rightarrow>
              cb_timestampowner U file line column v op s =
                Some (False, s1\<lparr>pw_queries := pw_queries s1 @ [Getpwnam user],
                                audit_log := audit_log s @ [Unknown_user file line column user]\<rparr>))))"
proof (intro conjI impI)
  assume a: "str v = Some (CHR ''#'' # n) \<and> sudo_strtoid U n = Some u \<and> sudo_getpwuid U u = Some p"
  then show "pw_uid p = u"
    by (auto simp: sudo_getpwuid_def dest: find_uid)
  with a show "cb_timestampowner U file line column v op s =
        Some (True, s\<lparr>pw_queries := pw_queries s @ [Getpwuid u],
                      timestamp_uid := u, timestamp_gid := pw_gid p\<rparr>)"
    by (simp add: cb_timestampowner_def numeric_lookup_def timestamp_set_owner_def)
next
  assume a: "str v = Some user \<and>
    (\<forall>n. user = CHR ''#'' # n \<longrightarrow>
       (case sudo_strtoid U n of None \<Rightarrow> True | Some u \<Rightarrow> sudo_getpwuid U u = None))"
  then have nl: "\<exists>s1. numeric_lookup U user s = (None, s1) \<and>
         timestamp_uid s1 = timestamp_uid s \<and> timestamp_gid s1 = timestamp_gid s \<and>
         audit_log s1 = audit_log s"
    by (auto simp: numeric_lookup_def split: list.splits option.splits)
  then obtain s1 where s1: "numeric_lookup U user s = (None, s1)"
    "timestamp_uid s1 = timestamp_uid s" "timestamp_gid s1 = timestamp_gid s"
    "audit_log s1 = audit_log s"
    by blast
  have "case sudo_getpwnam U user of
            Some p \<Rightarrow>
              pw_name p = user \<and>
              cb_timestampowner U file line column v op s =
                Some (True, s1\<lparr>pw_queries := pw_queries s1 @ [Getpwnam user],
                               timestamp_uid := pw_uid p, timestamp_gid := pw_gid p\<rparr>)
          | None \<Rightarrow>
              cb_timestampowner U file line column v op s =
                Some (False, s1\<lparr>pw_queries := pw_queries s1 @ [Getpwnam user],
                                audit_log := audit_log s @ [Unknown_user file line column user]\<rparr>)"
    using a s1
    by (auto simp: cb_timestampowner_def timestamp_set_owner_def sudo_getpwnam_def
        split: option.splits dest: find_name)
  with s1 show "\<exists>s1. numeric_lookup U user s = (None, s1) \<and>
         timestamp_uid s1 = timestamp_uid s \<and> timestamp_gid s1 = timestamp_gid s \<and>
         audit_log s1 = audit_log s \<and>
         (case sudo_getpwnam U user of
            Some p \<Rightarrow>
              pw_name p = user \<and>
              cb_timestampowner U file line column v op s =
                Some (True, s1\<lparr>pw_queries := pw_queries s1 @ [Getpwnam user],
                               timestamp_uid := pw_uid p, timestamp_gid := pw_gid p\<rparr>)
          | None \<Rightarrow>
              cb_timestampowner U file line column v op s =
                Some (False, s1\<lparr>pw_queries := pw_queries s1 @ [Getpwnam user],
                                audit_log := audit_log s @ [Unknown_user file line column user]\<rparr>))"
    by blast
qed

theorem timestampowner_resolution_witness:
  "sudo_getpwnam userdb_example ''#0'' = None \<and>
   cb_timestampowner userdb_example ''/etc/sudoers'' 3 10 (str_value ''#0'') 1
       (sudoers_example\<lparr>timestamp_uid := 7, timestamp_gid := 7\<rparr>)
     = Some (True, sudoers_example\<lparr>timestamp_uid := 0, timestamp_gid := 0,
                     pw_queries := [Getpwuid 0]\<rparr>) \<and>
   cb_timestampowner userdb_example ''/etc/sudoers'' 3 10 (str_value ''#4242'') 1
       (sudoers_example\<lparr>timestamp_uid := 7, timestamp_gid := 7\<rparr>)
     = Some (False, sudoers_example\<lparr>timestamp_uid := 7, timestamp_gid := 7,
                     pw_queries := [Getpwuid 4242, Getpwnam ''#4242''],
                     audit_log := [Unknown_user ''/etc/sudoers'' 3 10 ''#4242'']\<rparr>) \<and>
   cb_timestampowner userdb_example ''/etc/sudoers'' 3 10 (str_value ''alice'') 1
       (sudoers_example\<lparr>timestamp_uid := 7, timestamp_gid := 7\<rparr>)
     = Some (True, sudoers_example\<lparr>timestamp_uid := 1000, timestamp_gid := 100,
                     pw_queries := [Getpwnam ''alice'']\<rparr>)"
proof -
  let ?s = "sudoers_example\<lparr>timestamp_uid := 7, timestamp_gid := 7\<rparr>"
  have a: "str (str_value ''#0'') = Some (CHR ''#'' # ''0'') \<and>
           sudo_strtoid userdb_example ''0'' = Some 0 \<and>
           sudo_getpwuid userdb_example 0 = Some \<lparr>pw_name = ''root'', pw_uid = 0, pw_gid = 0\<rparr>"
    by (simp add: str_value_def userdb_example_def sudo_getpwuid_def)
  have b: "sudo_getpwnam userdb_example ''#0'' = None"
    by (simp add: userdb_example_def sudo_getpwnam_def)
  have c: "cb_timestampowner userdb_example ''/etc/sudoers'' 3 10 (str_value ''#4242'') 1 ?s
     = Some (False, sudoers_example\<lparr>timestamp_uid := 7, timestamp_gid := 7,
                     pw_queries := [Getpwuid 4242, Getpwnam ''#4242''],
                     audit_log := [Unknown_user ''/etc/sudoers'' 3 10 ''#4242'']\<rparr>)"
    by (simp add: cb_timestampowner_def numeric_lookup_def userdb_example_def str_value_def
          sudo_getpwuid_def sudo_getpwnam_def sudoers_example_def)
  have d: "cb_timestampowner userdb_example ''/etc/sudoers'' 3 10 (str_value ''alice'') 1 ?s
     = Some (True, sudoers_example\<lparr>timestamp_uid := 1000, timestamp_gid := 100,
                     pw_queries := [Getpwnam ''alice'']\<rparr>)"
    by (simp add: cb_timestampowner_def numeric_lookup_def userdb_example_def str_value_def
          sudo_getpwuid_def sudo_getpwnam_def sudoers_example_def timestamp_set_owner_def)
  from timestampowner_resolution [of "str_value ''#0''" "''0''" userdb_example 0
      "\<lparr>pw_name = ''root'', pw_uid = 0, pw_gid = 0\<rparr>" "''/etc/sudoers''" 3 10 1 ?s] a b c d
  show ?thesis
    by (simp add: sudoers_example_def)
qed























section \<open>Properties of the path escapes\<close>

lemma render_seq_state: "snd (render_seq strsize s) = s"
  by (simp add: render_seq_def snprintf_def)

lemma fill_seq_cached:
  "sessid s ! 0 \<noteq> NUL \<Longrightarrow> fill_seq A strsize logdir s = (fst (render_seq strsize s), s)"
  by (simp add: fill_seq_def prod_eq_iff render_seq_state)

lemma fill_seq_calls_cached:
  "sessid s ! 0 \<noteq> NUL \<Longrightarrow>
   fill_seq_calls A cs s = (map (\<lambda>(strsize, logdir). fst (render_seq strsize s)) cs, s)"
  by (induction cs) (auto simp: fill_seq_cached)

lemma fill_seq_allocates:
  assumes "sessid s ! 0 = NUL"
    and "iolog_nextid A (seq_storage s) logdir (sessid s) = (True, buf, d')"
  shows "fill_seq A strsize logdir s =
           (fst (render_seq strsize (s\<lparr>sessid := buf\<rparr>)),
            s\<lparr>sessid := buf, seq_storage := d', nextid_calls := Suc (nextid_calls s)\<rparr>)"
  using assms by (simp add: fill_seq_def call_nextid_def render_seq_def snprintf_def)

lemma fill_seq_fails:
  assumes "sessid s ! 0 = NUL"
    and "iolog_nextid A (seq_storage s) logdir (sessid s) = (False, buf, d')"
  shows "fill_seq A strsize logdir s =
           (([], SIZE_MAX),
            s\<lparr>sessid := buf, seq_storage := d', nextid_calls := Suc (nextid_calls s)\<rparr>)"
  using assms by (simp add: fill_seq_def call_nextid_def)

text \<open>
  Claim C8, as the code has it. A call of \<open>fill_seq\<close> with the cache empty asks the
  allocator once and keeps in the static buffer whatever \<open>iolog_nextid\<close> left there: after
  a success the id is rendered, after a failure \<open>(size_t)-1\<close> is returned. \<open>fill_seq\<close>
  does not clear the buffer after a failure. Whenever the first byte left in the buffer is
  not NUL, whether the allocator reported success or not, the value is fixed: every later
  call renders that buffer and the allocator has been asked exactly once. With the cache
  non-empty no call asks the allocator or changes the state.
\<close>

theorem fill_seq_caches:
  "(sessid s ! 0 = NUL \<and>
    iolog_nextid A (seq_storage s) logdir (sessid s) = (True, buf, d') \<longrightarrow>
      fill_seq A strsize logdir s =
        (fst (render_seq strsize (s\<lparr>sessid := buf\<rparr>)),
         s\<lparr>sessid := buf, seq_storage := d', nextid_calls := Suc (nextid_calls s)\<rparr>)) \<and>
   (sessid s ! 0 = NUL \<and>
    iolog_nextid A (seq_storage s) logdir (sessid s) = (False, buf, d') \<longrightarrow>
      fill_seq A strsize logdir s =
        (([], SIZE_MAX),
         s\<lparr>sessid := buf, seq_storage := d', nextid_calls := Suc (nextid_calls s)\<rparr>)) \<and>
   (sessid s ! 0 = NUL \<and>
    iolog_nextid A (seq_storage s) logdir (sessid s) = (ok, buf, d') \<and> buf ! 0 \<noteq> NUL \<longrightarrow>
      fill_seq_calls A ((strsize, logdir) # cs) s =
        (fst (fill_seq A strsize logdir s) #
           map (\<lambda>(strsize, logdir). fst (render_seq strsize (s\<lparr>sessid := buf\<rparr>))) cs,
         s\<lparr>sessid := buf, seq_storage := d', nextid_calls := Suc (nextid_calls s)\<rparr>)) \<and>
   (sessid s ! 0 \<noteq> NUL \<longrightarrow>
      fill_seq A strsize logdir s = (fst (render_seq strsize s), s) \<and>
      fill_seq_calls A cs s =
        (map (\<lambda>(strsize, logdir). fst (render_seq strsize s)) cs, s))"
proof (intro conjI impI)
  assume a: "sessid s ! 0 = NUL \<and>
          iolog_nextid A (seq_storage s) logdir (sessid s) = (True, buf, d')"
  then show "fill_seq A strsize logdir s =
              (fst (render_seq strsize (s\<lparr>sessid := buf\<rparr>)),
               s\<lparr>sessid := buf, seq_storage := d', nextid_calls := Suc (nextid_calls s)\<rparr>)"
    by (simp add: fill_seq_allocates)
next
  assume a: "sessid s ! 0 = NUL \<and>
          iolog_nextid A (seq_storage s) logdir (sessid s) = (False, buf, d')"
  then show "fill_seq A strsize logdir s =
              (([], SIZE_MAX),
               s\<lparr>sessid := buf, seq_storage := d', nextid_calls := Suc (nextid_calls s)\<rparr>)"
    by (simp add: fill_seq_fails)
next
  let ?s1 = "s\<lparr>sessid := buf, seq_storage := d', nextid_calls := Suc (nextid_calls s)\<rparr>"
  assume a: "sessid s ! 0 = NUL \<and>
    iolog_nextid A (seq_storage s) logdir (sessid s) = (ok, buf, d') \<and> buf ! 0 \<noteq> NUL"
  have st: "snd (fill_seq A strsize logdir s) = ?s1"
    using a fill_seq_allocates [of s A logdir buf d' strsize]
      fill_seq_fails [of s A logdir buf d' strsize]
    by (cases ok) simp_all
  have n: "sessid ?s1 ! 0 \<noteq> NUL" using a by simp
  have same: "\<And>k. fst (render_seq k ?s1) = fst (render_seq k (s\<lparr>sessid := buf\<rparr>))"
    by (simp add: render_seq_def snprintf_def)
  have "fill_seq_calls A ((strsize, logdir) # cs) s =
          (fst (fill_seq A strsize logdir s) # fst (fill_seq_calls A cs ?s1),
           snd (fill_seq_calls A cs ?s1))"
    using st by (simp add: split_beta)
  also have "\<dots> = (fst (fill_seq A strsize logdir s) #
           map (\<lambda>(strsize, logdir). fst (render_seq strsize (s\<lparr>sessid := buf\<rparr>))) cs, ?s1)"
    by (simp add: fill_seq_calls_cached [OF n] same)
  finally show "fill_seq_calls A ((strsize, logdir) # cs) s =
        (fst (fill_seq A strsize logdir s) #
           map (\<lambda>(strsize, logdir). fst (render_seq strsize (s\<lparr>sessid := buf\<rparr>))) cs,
         s\<lparr>sessid := buf, seq_storage := d', nextid_calls := Suc (nextid_calls s)\<rparr>)" .
next
  assume n: "sessid s ! 0 \<noteq> NUL"
  then show "fill_seq A strsize logdir s = (fst (render_seq strsize s), s)"
    by (rule fill_seq_cached)
  from n show "fill_seq_calls A cs s =
              (map (\<lambda>(strsize, logdir). fst (render_seq strsize s)) cs, s)"
    by (rule fill_seq_calls_cached)
qed

theorem fill_seq_caches_witness:
  "fill_seq_calls allocator_example [(64, ''/var/log/sudo-io''), (64, ''/var/log/sudo-io''),
       (64, ''/var/log/sudo-io''), (64, ''/elsewhere'')] iolog_example
     = ([([], SIZE_MAX), (''A1/B2/C3'', 8), (''A1/B2/C3'', 8), (''A1/B2/C3'', 8)],
        iolog_example\<lparr>sessid := ''A1B2C3'' @ [NUL], seq_storage := 2, nextid_calls := 2\<rparr>)"
proof -
  let ?s0 = "iolog_example\<lparr>seq_storage := 1, nextid_calls := 1\<rparr>"
  let ?s1 = "iolog_example\<lparr>sessid := ''A1B2C3'' @ [NUL], seq_storage := 2, nextid_calls := 2\<rparr>"
  have h0: "sessid iolog_example ! 0 = NUL \<and>
            iolog_nextid allocator_example (seq_storage iolog_example) ''/var/log/sudo-io''
              (sessid iolog_example) = (False, sessid iolog_example, 1)"
    by (simp add: iolog_example_def allocator_example_def)
  have h1: "sessid ?s0 ! 0 = NUL \<and>
            iolog_nextid allocator_example (seq_storage ?s0) ''/var/log/sudo-io''
              (sessid ?s0) = (True, ''A1B2C3'' @ [NUL], 2) \<and> (''A1B2C3'' @ [NUL]) ! 0 \<noteq> NUL"
    by (simp add: iolog_example_def allocator_example_def NUL_def)
  from fill_seq_caches [of iolog_example allocator_example "''/var/log/sudo-io''"
      "sessid iolog_example" 1 64] h0
  have first: "fill_seq allocator_example 64 ''/var/log/sudo-io'' iolog_example
                 = (([], SIZE_MAX), ?s0)"
    by (simp add: iolog_example_def)
  from fill_seq_caches [of ?s0 allocator_example "''/var/log/sudo-io''" "''A1B2C3'' @ [NUL]" 2
      64 True "[(64, ''/var/log/sudo-io''), (64, ''/elsewhere'')]"] h1
  have rest: "fill_seq_calls allocator_example [(64, ''/var/log/sudo-io''),
                  (64, ''/var/log/sudo-io''), (64, ''/elsewhere'')] ?s0
                = ([(''A1/B2/C3'', 8), (''A1/B2/C3'', 8), (''A1/B2/C3'', 8)], ?s1)"
    by (simp add: iolog_example_def allocator_example_def fill_seq_def call_nextid_def
          render_seq_def snprintf_def seq_bytes_def c_str_def NUL_def)
  from first rest show ?thesis by simp
qed

text \<open>
  Claim C8 as stated fails in its parenthesis: \<open>iolog_nextid\<close> is handed the static buffer
  itself, so an allocator that writes the id and then reports failure leaves the cache
  filled. The failed call returns \<open>(size_t)-1\<close>, and the calls that follow render the id
  it left without asking the allocator again: no allocation ever succeeded.
\<close>

theorem fill_seq_caches_counterexample:
  "sessid iolog_example ! 0 = NUL \<and>
   iolog_nextid allocator_leaky (seq_storage iolog_example) ''/var/log/sudo-io''
       (sessid iolog_example) = (False, ''A1B2C3'' @ [NUL], 1) \<and>
   fill_seq allocator_leaky 64 ''/var/log/sudo-io'' iolog_example
     = (([], SIZE_MAX),
        iolog_example\<lparr>sessid := ''A1B2C3'' @ [NUL], seq_storage := 1, nextid_calls := 1\<rparr>) \<and>
   sessid (snd (fill_seq allocator_leaky 64 ''/var/log/sudo-io'' iolog_example)) ! 0 \<noteq> NUL \<and>
   fill_seq_calls allocator_leaky [(64, ''/var/log/sudo-io''), (64, ''/var/log/sudo-io''),
       (64, ''/var/log/sudo-io'')] iolog_example
     = ([([], SIZE_MAX), (''A1/B2/C3'', 8), (''A1/B2/C3'', 8)],
        iolog_example\<lparr>sessid := ''A1B2C3'' @ [NUL], seq_storage := 1, nextid_calls := 1\<rparr>)"
  by (simp add: fill_seq_def call_nextid_def render_seq_def snprintf_def seq_bytes_def
        c_str_def NUL_def iolog_example_def allocator_leaky_def)

lemma c_str_clean: "NUL \<notin> set bytes \<Longrightarrow> c_str bytes = bytes"
  by (induction bytes) (auto simp: c_str_def)

lemma slash_not_NUL: "CHR ''/'' \<noteq> NUL"
  by (simp add: NUL_def)

lemma fill_seq_renders:
  assumes "sessid s = [a, b, c, d, e, f, NUL]" and "NUL \<notin> set [a, b, c, d, e, f]"
    and "8 < strsize"
  shows "fill_seq A strsize logdir s = (([a, b, CHR ''/'', c, d, CHR ''/'', e, f], 8), s)"
proof -
  have "c_str [a, b, CHR ''/'', c, d, CHR ''/'', e, f] = [a, b, CHR ''/'', c, d, CHR ''/'', e, f]"
    using assms(2) slash_not_NUL by (intro c_str_clean) auto
  with assms show ?thesis
    by (auto simp: fill_seq_def render_seq_def snprintf_def seq_bytes_def)
qed

lemma fill_user_renders:
  "length (user_ctx_name s) < strsize \<Longrightarrow>
   fill_user strsize unused s = ((user_ctx_name s, length (user_ctx_name s)), s)"
  by (simp add: fill_user_def strlcpy_def)

lemma chars_not_NUL: "NUL \<notin> set ''A1B2C3''"
  by (simp add: NUL_def)

lemma expand_seq_user_cached:
  assumes "sessid s = ''A1B2C3'' @ [NUL]" and "user_ctx_name s = ''alice''" and "14 < maxlen"
  shows "expand (path_escapes A) maxlen logdir ''%{seq}/%{user}'' [] s = (Inr ''A1/B2/C3/alice'', s)"
proof -
  have sq: "fill_seq A maxlen logdir s = ((''A1/B2/C3'', 8), s)"
    using fill_seq_renders [of s "CHR ''A''" "CHR ''1''" "CHR ''B''" "CHR ''2''" "CHR ''C''"
        "CHR ''3''" maxlen A logdir] assms chars_not_NUL
    by simp
  show ?thesis
    using assms(2,3) by (simp add: path_escapes_def sq fill_user_def strlcpy_def)
qed

lemma expand_seq_user_fresh:
  assumes "sessid s ! 0 = NUL"
    and "iolog_nextid A (seq_storage s) logdir (sessid s) = (True, ''A1B2C3'' @ [NUL], d')"
    and "user_ctx_name s = ''alice''" and "14 < maxlen"
  shows "expand (path_escapes A) maxlen logdir ''%{seq}/%{user}'' [] s =
           (Inr ''A1/B2/C3/alice'',
            s\<lparr>sessid := ''A1B2C3'' @ [NUL], seq_storage := d',
              nextid_calls := Suc (nextid_calls s)\<rparr>)"
proof -
  let ?s1 = "s\<lparr>sessid := ''A1B2C3'' @ [NUL], seq_storage := d',
              nextid_calls := Suc (nextid_calls s)\<rparr>"
  have "fill_seq A maxlen logdir ?s1 = ((''A1/B2/C3'', 8), ?s1)"
    using fill_seq_renders [of ?s1 "CHR ''A''" "CHR ''1''" "CHR ''B''" "CHR ''2''" "CHR ''C''"
        "CHR ''3''" maxlen A logdir] assms chars_not_NUL
    by simp
  moreover have "sessid ?s1 ! 0 \<noteq> NUL" by (simp add: NUL_def)
  ultimately have r: "render_seq maxlen ?s1 = ((''A1/B2/C3'', 8), ?s1)"
    by (simp add: fill_seq_def)
  have sq: "fill_seq A maxlen logdir s = ((''A1/B2/C3'', 8), ?s1)"
    using assms(1,2) r by (simp add: fill_seq_def call_nextid_def)
  show ?thesis
    using assms(3,4) by (simp add: path_escapes_def sq fill_user_def strlcpy_def)
qed

text \<open>
  Claim C9. \<open>fill_seq\<close> renders a cached six-character id as three pairs joined by slashes
  and returns 8; \<open>fill_user\<close> renders \<open>user_ctx.name\<close>; and expanding \<open>%{seq}/%{user}\<close> with the
  id \<open>A1B2C3\<close> (cached, or issued by the allocator during the expansion) and the user
  \<open>alice\<close> gives \<open>A1/B2/C3/alice\<close>, for every maximum length above 14.
\<close>

theorem seq_and_user_rendering:
  "(sessid s = [a, b, c, d, e, f, NUL] \<and> NUL \<notin> set [a, b, c, d, e, f] \<and> 8 < strsize \<longrightarrow>
      fill_seq A strsize logdir s = (([a, b, CHR ''/'', c, d, CHR ''/'', e, f], 8), s)) \<and>
   (length (user_ctx_name s) < strsize \<longrightarrow>
      fill_user strsize unused s = ((user_ctx_name s, length (user_ctx_name s)), s)) \<and>
   (sessid s = ''A1B2C3'' @ [NUL] \<and> user_ctx_name s = ''alice'' \<and> 14 < maxlen \<longrightarrow>
      expand (path_escapes A) maxlen logdir ''%{seq}/%{user}'' [] s
        = (Inr ''A1/B2/C3/alice'', s)) \<and>
   (sessid s ! 0 = NUL \<and>
    iolog_nextid A (seq_storage s) logdir (sessid s) = (True, ''A1B2C3'' @ [NUL], d') \<and>
    user_ctx_name s = ''alice'' \<and> 14 < maxlen \<longrightarrow>
      expand (path_escapes A) maxlen logdir ''%{seq}/%{user}'' [] s
        = (Inr ''A1/B2/C3/alice'',
           s\<lparr>sessid := ''A1B2C3'' @ [NUL], seq_storage := d',
             nextid_calls := Suc (nextid_calls s)\<rparr>))"
  using fill_seq_renders [of s a b c d e f strsize A logdir]
    fill_user_renders [of s strsize unused]
    expand_seq_user_cached [of s maxlen A logdir]
    expand_seq_user_fresh [of s A logdir d' maxlen]
  by blast

theorem seq_and_user_rendering_witness:
  "expand (path_escapes allocator_example) 4096 ''/var/log/sudo-io'' ''%{seq}/%{user}'' []
       (iolog_example\<lparr>seq_storage := 1\<rparr>)
     = (Inr ''A1/B2/C3/alice'',
        iolog_example\<lparr>sessid := ''A1B2C3'' @ [NUL], seq_storage := 2, nextid_calls := 1\<rparr>) \<and>
   expand (path_escapes allocator_example) 4096 ''/var/log/sudo-io'' ''%{seq}/%{user}'' []
       (iolog_example\<lparr>sessid := ''A1B2C3'' @ [NUL], seq_storage := 2, nextid_calls := 1\<rparr>)
     = (Inr ''A1/B2/C3/alice'',
        iolog_example\<lparr>sessid := ''A1B2C3'' @ [NUL], seq_storage := 2, nextid_calls := 1\<rparr>) \<and>
   fill_seq allocator_example 3
       ''/var/log/sudo-io'' (iolog_example\<lparr>sessid := ''A1B2C3'' @ [NUL]\<rparr>)
     = ((''A1'', 8), iolog_example\<lparr>sessid := ''A1B2C3'' @ [NUL]\<rparr>)"
proof -
  let ?s0 = "iolog_example\<lparr>seq_storage := 1\<rparr>"
  let ?s1 = "iolog_example\<lparr>sessid := ''A1B2C3'' @ [NUL], seq_storage := 2, nextid_calls := 1\<rparr>"
  have h1: "sessid ?s0 ! 0 = NUL \<and>
            iolog_nextid allocator_example (seq_storage ?s0) ''/var/log/sudo-io'' (sessid ?s0)
              = (True, ''A1B2C3'' @ [NUL], 2) \<and>
            user_ctx_name ?s0 = ''alice'' \<and> (14::nat) < 4096"
    by (simp add: iolog_example_def allocator_example_def)
  have h2: "sessid ?s1 = ''A1B2C3'' @ [NUL] \<and> user_ctx_name ?s1 = ''alice'' \<and> (14::nat) < 4096"
    by (simp add: iolog_example_def)
  have h3: "fill_seq allocator_example 3
       ''/var/log/sudo-io'' (iolog_example\<lparr>sessid := ''A1B2C3'' @ [NUL]\<rparr>)
     = ((''A1'', 8), iolog_example\<lparr>sessid := ''A1B2C3'' @ [NUL]\<rparr>)"
    by (simp add: fill_seq_def render_seq_def snprintf_def seq_bytes_def c_str_def NUL_def)
  from seq_and_user_rendering [of ?s0 _ _ _ _ _ _ _ allocator_example
      "''/var/log/sudo-io''" _ 4096 2] h1
  have a: "expand (path_escapes allocator_example) 4096 ''/var/log/sudo-io'' ''%{seq}/%{user}'' []
       ?s0 = (Inr ''A1/B2/C3/alice'', ?s1)"
    by (simp add: iolog_example_def)
  from seq_and_user_rendering [of ?s1 _ _ _ _ _ _ _ allocator_example
      "''/var/log/sudo-io''" _ 4096] h2
  have b: "expand (path_escapes allocator_example) 4096 ''/var/log/sudo-io'' ''%{seq}/%{user}'' []
       ?s1 = (Inr ''A1/B2/C3/alice'', ?s1)"
    by simp
  from a b h3 show ?thesis by simp
qed

end
